theory Spec2Isabelle
  imports Complex_Main "HOL-Library.Char_ord" "HOL-Library.List_Lexorder"
begin

section \<open>The transaction calendar chart (CustomCalendarChart)\<close>

text \<open>
  A shallow embedding of the component \<open>CustomCalendarChart\<close> (src/unnamed/part_002):
  the memoised values \<open>processedData\<close>, \<open>displayYears\<close> and \<open>calendarData\<close>, the
  helpers \<open>getColorIntensity\<close> and \<open>handleCellClick\<close>, the table
  \<open>csvDataForControls\<close> and the vector document of \<open>downloadCalendarChartAsSVG\<close>.

  Conventions of the embedding.
  \<^item> A JavaScript number that holds an amount is a \<open>rat\<close>: the exact value of the
    double. In the aggregation (the sums of \<open>processedData\<close> and of the grid, the
    quotient of the intensity) the arithmetic is exact; in the exports, where numbers
    are printed, it is the arithmetic of doubles (\<open>roundToDouble\<close>). NaN and the
    infinities are not modelled. A number that holds a count is a \<open>nat\<close>, a year an
    \<open>int\<close>.
  \<^item> A \<open>Date\<close> is the calendar date its local-time getters return
    (\<open>getFullYear\<close>, \<open>getMonth\<close>, \<open>getDate\<close>). Every \<open>Date\<close> the component builds
    is at local midnight. The time zone only matters to \<open>toISOString\<close>, which takes
    the zone's offset at each date as a parameter.
  \<^item> What the component reads from its environment is a parameter: the transactions
    (\<open>data\<close>), the display currency, the conversion function
    \<open>convertForDisplaySync\<close> (imported, not part of the component), the clock
    (\<open>today\<close>, \<open>currentYear\<close>) and the time zone.
  \<^item> An exception is the left injection of a sum.
  \<^item> \<open>useMemo\<close> keeps its value while its dependency array is unchanged: a render
    takes the memoised values of the render before (\<open>render\<close>), and the first render
    computes them all.
\<close>

subsection \<open>Numbers as strings\<close>

definition digit :: "nat \<Rightarrow> char" where
  "digit n = ''0123456789'' ! n"

text \<open>\<open>Number.prototype.toString\<close> on a non-negative integer, and on an integer.\<close>

fun toString_nat :: "nat \<Rightarrow> string" where
  "toString_nat n =
     (if n < 10 then [digit n] else toString_nat (n div 10) @ [digit (n mod 10)])"

definition toString_int :: "int \<Rightarrow> string" where
  "toString_int i =
     (if i < 0 then CHR ''-'' # toString_nat (nat (- i)) else toString_nat (nat i))"

text \<open>
  \<open>x.toFixed(2)\<close>: the sign, then the integer \<open>n\<close> with \<open>n / 100\<close> nearest to
  \<open>|x|\<close> (the larger one on a tie), printed with two decimals. (Below \<open>10^21\<close>, where
  JavaScript switches to exponent notation.)
\<close>

definition toFixed2 :: "rat \<Rightarrow> string" where
  "toFixed2 x =
     (let s = (if x < 0 then ''-'' else '''');
          a = (if x < 0 then - x else x);
          n = nat \<lfloor>a * 100 + 1 / 2\<rfloor>
      in s @ toString_nat (n div 100) @ ''.'' @ [digit (n mod 100 div 10), digit (n mod 10)])"

definition padStart :: "nat \<Rightarrow> string \<Rightarrow> string" where
  "padStart n s = replicate (n - length s) CHR ''0'' @ s"

subsection \<open>The arithmetic of doubles\<close>

text \<open>
  The binade of a positive number: the \<open>e\<close> with \<open>2^e \<le> x < 2^(e + 1)\<close>, and
  \<open>- 1022\<close> below \<open>2^(- 1022)\<close>, where the doubles are subnormal.
\<close>

function exponentUp :: "rat \<Rightarrow> nat" where
  "exponentUp x = (if x < 2 then 0 else 1 + exponentUp (x / 2))"
  by pat_completeness auto
termination
proof (relation "measure (\<lambda>x. nat \<lfloor>x\<rfloor>)")
  show "wf (measure (\<lambda>x::rat. nat \<lfloor>x\<rfloor>))" by simp
next
  fix x :: rat assume "\<not> x < 2"
  then have "x / 2 \<le> x - 1" and "1 \<le> \<lfloor>x\<rfloor>" by simp_all
  then have "\<lfloor>x / 2\<rfloor> \<le> \<lfloor>x\<rfloor> - 1" and "1 \<le> \<lfloor>x\<rfloor>"
    using floor_mono [of "x / 2" "x - 1"] by simp_all
  then show "(x / 2, x) \<in> measure (\<lambda>x. nat \<lfloor>x\<rfloor>)" by simp
qed

declare exponentUp.simps [simp del]

function exponentDown :: "rat \<Rightarrow> nat \<Rightarrow> nat" where
  "exponentDown x k = (if 1 \<le> x \<or> 1022 \<le> k then k else exponentDown (2 * x) (k + 1))"
  by pat_completeness auto
termination
  by (relation "measure (\<lambda>(x, k). 1022 - k)") auto

declare exponentDown.simps [simp del]

definition binade :: "rat \<Rightarrow> int" where
  "binade x = (if 1 \<le> x then int (exponentUp x) else - int (exponentDown x 0))"

text \<open>The nearest integer, the even one of two.\<close>

definition roundHalfEven :: "rat \<Rightarrow> int" where
  "roundHalfEven q =
     (let f = \<lfloor>q\<rfloor>; r = q - of_int f
      in if r < 1 / 2 then f else if 1 / 2 < r then f + 1 else if even f then f else f + 1)"

text \<open>
  The double nearest to a number (round to nearest, ties to even): the multiple of
  the unit in the last place of its binade, 53 bits. (Below the overflow threshold,
  \<open>2^1024 - 2^970\<close>.) An arithmetic operation on doubles is the exact operation,
  rounded.
\<close>

definition roundToDouble :: "rat \<Rightarrow> rat" where
  "roundToDouble x =
     (if x = 0 then 0
      else
        (let a = \<bar>x\<bar>;
             ulp = power_int 2 (binade a - 52)
         in sgn x * (of_int (roundHalfEven (a / ulp)) * ulp)))"

definition plus_double :: "rat \<Rightarrow> rat \<Rightarrow> rat" where
  "plus_double a b = roundToDouble (a + b)"

definition minus_double :: "rat \<Rightarrow> rat \<Rightarrow> rat" where
  "minus_double a b = roundToDouble (a - b)"

definition times_double :: "rat \<Rightarrow> rat \<Rightarrow> rat" where
  "times_double a b = roundToDouble (a * b)"

definition divide_double :: "rat \<Rightarrow> rat \<Rightarrow> rat" where
  "divide_double a b = roundToDouble (a / b)"

subsection \<open>The built-in Date\<close>

record jsdate =
  getFullYear :: int
  getMonth :: nat
  getDate :: nat

definition isLeapYear :: "int \<Rightarrow> bool" where
  "isLeapYear y = (y mod 4 = 0 \<and> (y mod 100 \<noteq> 0 \<or> y mod 400 = 0))"

definition daysInMonth :: "int \<Rightarrow> int \<Rightarrow> int" where
  "daysInMonth y m =
     (if m = 1 then (if isLeapYear y then 29 else 28)
      else if m = 3 \<or> m = 5 \<or> m = 8 \<or> m = 10 then 30
      else 31)"

text \<open>
  \<open>MakeDay\<close> for a month \<open>m\<close> in \<open>0..11\<close> and any day number: a day before the first
  or after the last of the month moves into the neighbouring months.
\<close>

function normDay :: "int \<Rightarrow> int \<Rightarrow> int \<Rightarrow> jsdate" where
  "normDay y m d =
     (if d < 1 then
        (let py = (if m = 0 then y - 1 else y);
             pm = (if m = 0 then 11 else m - 1)
         in normDay py pm (d + daysInMonth py pm))
      else if d > daysInMonth y m then
        (let ny = (if m = 11 then y + 1 else y);
             nm = (if m = 11 then 0 else m + 1)
         in normDay ny nm (d - daysInMonth y m))
      else \<lparr>getFullYear = y, getMonth = nat m, getDate = nat d\<rparr>)"
  by pat_completeness auto
termination
  by (relation "measure (\<lambda>(y, m, d). if d < 1 then nat (32 - d) else nat d)")
     (auto simp: daysInMonth_def)

text \<open>
  \<open>new Date(year, monthIndex, day)\<close>: a year in \<open>0..99\<close> means \<open>1900 + year\<close>, and a
  month index outside \<open>0..11\<close> moves the year.
\<close>

definition fullYear :: "int \<Rightarrow> int" where
  "fullYear year = (if 0 \<le> year \<and> year \<le> 99 then 1900 + year else year)"

definition newDate :: "int \<Rightarrow> int \<Rightarrow> int \<Rightarrow> jsdate" where
  "newDate year monthIndex day =
     normDay (fullYear year + monthIndex div 12) (monthIndex mod 12) day"

text \<open>\<open>date.setDate(n)\<close>, returning the changed date.\<close>

definition setDate :: "jsdate \<Rightarrow> int \<Rightarrow> jsdate" where
  "setDate dt n = normDay (getFullYear dt) (int (getMonth dt)) n"

text \<open>
  \<open>date.toISOString().split('T')[0]\<close> for a date at local midnight. The zone is a
  function \<open>tz\<close>: \<open>tz dt\<close> is the offset of local time at the date \<open>dt\<close>, in minutes
  east of UTC (\<open>- dt.getTimezoneOffset()\<close>; it changes with summer time). The string
  is the calendar date of the instant \<open>tz dt\<close> minutes before local midnight, as
  \<open>YYYY-MM-DD\<close> (a year outside \<open>0..9999\<close> has a sign and six digits).
\<close>

definition toUTC :: "(jsdate \<Rightarrow> int) \<Rightarrow> jsdate \<Rightarrow> jsdate" where
  "toUTC tz dt =
     normDay (getFullYear dt) (int (getMonth dt)) (int (getDate dt) + (- tz dt) div 1440)"

definition isoYear :: "int \<Rightarrow> string" where
  "isoYear y =
     (if 0 \<le> y \<and> y \<le> 9999 then padStart 4 (toString_nat (nat y))
      else (if y < 0 then ''-'' else ''+'') @ padStart 6 (toString_nat (nat \<bar>y\<bar>)))"

definition toISOString_date :: "(jsdate \<Rightarrow> int) \<Rightarrow> jsdate \<Rightarrow> string" where
  "toISOString_date tz dt =
     (let u = toUTC tz dt
      in isoYear (getFullYear u) @ ''-'' @ padStart 2 (toString_nat (getMonth u + 1))
         @ ''-'' @ padStart 2 (toString_nat (getDate u)))"

subsection \<open>Transactions and the bucket mapping (processedData)\<close>

text \<open>
  A transaction as the component reads it: \<open>transaction.id\<close>, \<open>transaction.date\<close>
  (through \<open>new Date(transaction.date)\<close> and its local-time getters),
  \<open>transaction.amount\<close> and \<open>transaction.currency\<close>.
\<close>

record transaction =
  tx_id :: int
  tx_date :: jsdate
  tx_amount :: rat
  tx_currency :: string

text \<open>
  The value type of \<open>dateMap\<close>, \<open>{ count: number; amount: number }\<close>, and the cell
  type \<open>DayData\<close>, which has the same two fields and three more.
\<close>

record DayInfo =
  count :: nat
  amount :: rat

record DayData = DayInfo +
  date :: jsdate
  isCurrentMonth :: bool
  isToday :: bool

text \<open>
  A JavaScript \<open>Map\<close> keeps its entries in insertion order: an association list
  with distinct keys. \<open>Map_set\<close> replaces the value of a key in place and appends
  a new key; \<open>map_of\<close> is \<open>Map.prototype.get\<close>.
\<close>

type_synonym dateMap = "(string \<times> DayInfo) list"

fun Map_set :: "'k \<Rightarrow> 'v \<Rightarrow> ('k \<times> 'v) list \<Rightarrow> ('k \<times> 'v) list" where
  "Map_set k v [] = [(k, v)]"
| "Map_set k v (p # ps) = (if fst p = k then (k, v) # ps else p # Map_set k v ps)"

text \<open>The key \<open>`${year}-${month}-${day}`\<close>.\<close>

definition dateKey :: "int \<Rightarrow> nat \<Rightarrow> nat \<Rightarrow> string" where
  "dateKey year month day =
     toString_int year @ ''-'' @ toString_nat month @ ''-'' @ toString_nat day"

text \<open>
  The body of \<open>data.forEach\<close> in \<open>processedData\<close>. The bucket is created when the
  key is new, its count is incremented, then the amount is converted (the call may
  throw: \<open>Inl\<close>) and added. \<open>currency || "USD"\<close> is the target currency.
\<close>

definition addTransaction ::
  "(rat \<Rightarrow> string \<Rightarrow> string \<Rightarrow> 'e + rat) \<Rightarrow> string \<Rightarrow> dateMap \<Rightarrow> transaction \<Rightarrow> 'e + dateMap" where
  "addTransaction convertForDisplaySync currency dateMap transaction =
     (let d = tx_date transaction;
          k = dateKey (getFullYear d) (getMonth d) (getDate d);
          (dateMap1, current) =
            (case map_of dateMap k of
               None \<Rightarrow> (Map_set k \<lparr>count = 0, amount = 0\<rparr> dateMap, \<lparr>count = 0, amount = 0\<rparr>)
             | Some c \<Rightarrow> (dateMap, c));
          current1 = current\<lparr>count := count current + 1\<rparr>;
          dateMap2 = Map_set k current1 dateMap1
      in case convertForDisplaySync (tx_amount transaction) (tx_currency transaction)
                (if currency = [] then ''USD'' else currency) of
           Inl e \<Rightarrow> Inl e
         | Inr convertedAmount \<Rightarrow>
             Inr (Map_set k (current1\<lparr>amount := amount current1 + convertedAmount\<rparr>) dateMap2))"

text \<open>\<open>data.forEach\<close>: an exception thrown by the body ends the loop.\<close>

fun forEach_transaction ::
  "(rat \<Rightarrow> string \<Rightarrow> string \<Rightarrow> 'e + rat) \<Rightarrow> string \<Rightarrow> dateMap \<Rightarrow> transaction list \<Rightarrow> 'e + dateMap" where
  "forEach_transaction conv currency dateMap [] = Inr dateMap"
| "forEach_transaction conv currency dateMap (t # ts) =
     (case addTransaction conv currency dateMap t of
        Inl e \<Rightarrow> Inl e
      | Inr dateMap' \<Rightarrow> forEach_transaction conv currency dateMap' ts)"

definition processedData ::
  "(rat \<Rightarrow> string \<Rightarrow> string \<Rightarrow> 'e + rat) \<Rightarrow> string \<Rightarrow> transaction list \<Rightarrow> 'e + dateMap" where
  "processedData conv currency data = forEach_transaction conv currency [] data"

subsection \<open>The years of the data (displayYears)\<close>

text \<open>
  A \<open>Set\<close> keeps its elements in insertion order; \<open>Array.prototype.sort\<close> without
  a comparator orders the elements by their strings.
\<close>

definition Set_add :: "'a \<Rightarrow> 'a list \<Rightarrow> 'a list" where
  "Set_add x s = (if x \<in> set s then s else s @ [x])"

definition displayYears :: "transaction list \<Rightarrow> int list" where
  "displayYears data =
     sort_key toString_int (fold (\<lambda>t years. Set_add (getFullYear (tx_date t)) years) data [])"

subsection \<open>The grid and the scale (calendarData)\<close>

record calendar =
  grid :: "DayData list list"
  maxCount :: nat
  maxAmount :: rat
  monthNames :: "string list"

text \<open>
  \<open>xs[i]\<close>, with \<open>None\<close> for \<open>undefined\<close>, and \<open>a || b\<close> on a value that may be
  undefined: \<open>b\<close> when \<open>a\<close> is undefined, zero or the empty string. (\<open>a || b || c\<close>
  has the value of \<open>a || (b || c)\<close>.)
\<close>

definition js_index :: "'a list \<Rightarrow> int \<Rightarrow> 'a option" where
  "js_index xs i = (if 0 \<le> i \<and> i < int (length xs) then Some (xs ! nat i) else None)"

definition or_number :: "rat option \<Rightarrow> rat \<Rightarrow> rat" where
  "or_number a b = (case a of None \<Rightarrow> b | Some x \<Rightarrow> if x = 0 then b else x)"

definition or_string :: "string option \<Rightarrow> string \<Rightarrow> string" where
  "or_string a b = (case a of None \<Rightarrow> b | Some x \<Rightarrow> if x = [] then b else x)"

text \<open>\<open>new Date(currentYear, month + 1, 0).getDate()\<close>.\<close>

definition lastDayOfMonth :: "int \<Rightarrow> nat \<Rightarrow> nat" where
  "lastDayOfMonth currentYear month = getDate (newDate currentYear (int month + 1) 0)"

text \<open>
  The scale, \<open>maxAmount\<close> in \<open>calendarData\<close>: the bucket amounts above zero, sorted, read at
  \<open>Math.floor(length * 0.80)\<close>. (The double \<open>0.80\<close> is taken as \<open>4/5\<close>; on the lengths
  an array can have, the floor of the double product is the floor of the exact one.)
\<close>

definition percentile80Index :: "rat list \<Rightarrow> int" where
  "percentile80Index sortedAmounts = \<lfloor>of_nat (length sortedAmounts) * (4 / 5 :: rat)\<rfloor>"

definition scaleMaxAmount :: "dateMap \<Rightarrow> rat" where
  "scaleMaxAmount buckets =
     (let amounts = filter (\<lambda>amount. amount > 0) (map amount (map snd buckets));
          sortedAmounts = sort amounts
      in if length sortedAmounts > 0
         then max (or_number (js_index sortedAmounts (percentile80Index sortedAmounts))
                    (or_number (js_index sortedAmounts (int (length sortedAmounts) - 1)) 1)) 1
         else 1)"

text \<open>
  One cell: the body of the inner loop, with \<open>displayYears.forEach\<close> as a fold over
  \<open>(totalCount, totalAmount, hasToday)\<close>. Two dates have the same \<open>toDateString()\<close>
  when they are the same calendar date.
\<close>

definition addYear ::
  "dateMap \<Rightarrow> jsdate \<Rightarrow> nat \<Rightarrow> nat \<Rightarrow> int \<Rightarrow> nat \<times> rat \<times> bool \<Rightarrow> nat \<times> rat \<times> bool" where
  "addYear buckets today dayOfMonth month year acc =
     (case acc of (totalCount, totalAmount, hasToday) \<Rightarrow>
        (let currentDate = newDate year (int month) (int dayOfMonth);
             dayInfo = map_of buckets (dateKey year month dayOfMonth);
             totalCount1 = (case dayInfo of None \<Rightarrow> totalCount | Some i \<Rightarrow> totalCount + count i);
             totalAmount1 = (case dayInfo of None \<Rightarrow> totalAmount | Some i \<Rightarrow> totalAmount + amount i)
         in (totalCount1, totalAmount1, if currentDate = today then True else hasToday)))"

definition cell :: "dateMap \<Rightarrow> int list \<Rightarrow> jsdate \<Rightarrow> int \<Rightarrow> nat \<Rightarrow> nat \<Rightarrow> DayData" where
  "cell buckets years today currentYear dayOfMonth month =
     (let isValidDay = (dayOfMonth \<le> lastDayOfMonth currentYear month);
          totals = (if isValidDay
                    then fold (addYear buckets today dayOfMonth month) years (0, 0, False)
                    else (0, 0, False))
      in case totals of (totalCount, totalAmount, hasToday) \<Rightarrow>
           \<lparr>count = totalCount, amount = totalAmount,
            date = newDate currentYear (int month) (int dayOfMonth),
            isCurrentMonth = isValidDay, isToday = hasToday\<rparr>)"

definition calendarData :: "dateMap \<Rightarrow> int list \<Rightarrow> jsdate \<Rightarrow> int \<Rightarrow> calendar" where
  "calendarData buckets years today currentYear =
     \<lparr>grid = map (\<lambda>dayOfMonth. map (cell buckets years today currentYear dayOfMonth) [0..<12])
               [1..<32],
      maxCount = foldr max (map count (map snd buckets)) 1,
      maxAmount = scaleMaxAmount buckets,
      monthNames = [''Jan'', ''Feb'', ''Mar'', ''Apr'', ''May'', ''Jun'',
                    ''Jul'', ''Aug'', ''Sep'', ''Oct'', ''Nov'', ''Dec'']\<rparr>"

subsection \<open>Renders and memoised values\<close>

text \<open>
  The three \<open>useMemo\<close> hooks of the component: each keeps its dependency array and
  its value from the render before.
\<close>

record hooks =
  processedData_deps :: "nat \<times> string \<times> rat"
  processedData_value :: dateMap
  displayYears_deps :: "nat \<times> int"
  displayYears_value :: "int list"
  calendarData_deps :: "nat \<times> nat \<times> string \<times> rat"
  calendarData_value :: calendar

text \<open>
  \<open>useMemo(() => v, deps)\<close>: the value of the render before when there is one and
  its dependency array is the same, and the new value otherwise.
\<close>

definition useMemo :: "'v \<Rightarrow> 'd \<Rightarrow> ('d \<times> 'v) option \<Rightarrow> 'v" where
  "useMemo v deps before =
     (case before of None \<Rightarrow> v | Some (deps', v') \<Rightarrow> if deps' = deps then v' else v)"

text \<open>\<open>xs.join(sep)\<close>.\<close>

fun join :: "string \<Rightarrow> string list \<Rightarrow> string" where
  "join sep [] = []"
| "join sep [x] = x"
| "join sep (x # y # ys) = x @ sep @ join sep (y # ys)"

text \<open>
  One render of the component on the transactions \<open>data\<close>, after the render that
  left the hooks \<open>before\<close> (\<open>None\<close> for the first render). The dependency arrays are
  those of the source: for \<open>processedData\<close> the length of the data, the currency and
  the sum of the amounts and ids; for \<open>displayYears\<close> the length of the data and
  the sum of the ids; for \<open>calendarData\<close> the size of the bucket mapping, the number
  of years, the years joined, and the sum of the counts and amounts of the buckets.
  An exception in the aggregation ends the render.
\<close>

definition render ::
  "(rat \<Rightarrow> string \<Rightarrow> string \<Rightarrow> 'e + rat) \<Rightarrow> string \<Rightarrow> jsdate \<Rightarrow> int \<Rightarrow> transaction list
     \<Rightarrow> hooks option \<Rightarrow> 'e + hooks" where
  "render conv currency today currentYear data before =
     (let pdDeps = (length data, currency,
                    fold (\<lambda>item sum. sum + tx_amount item + of_int (tx_id item)) data 0)
      in case useMemo (processedData conv currency data) pdDeps
                (map_option (\<lambda>h. (processedData_deps h, Inr (processedData_value h))) before) of
           Inl e \<Rightarrow> Inl e
         | Inr pd \<Rightarrow>
             (let dyDeps = (length data, fold (\<lambda>item sum. sum + tx_id item) data 0);
                  dy = useMemo (displayYears data) dyDeps
                         (map_option (\<lambda>h. (displayYears_deps h, displayYears_value h)) before);
                  cdDeps = (length pd, length dy, join '','' (map toString_int dy),
                            fold (\<lambda>d sum. sum + of_nat (count d) + amount d) (map snd pd) 0);
                  cd = useMemo (calendarData pd dy today currentYear) cdDeps
                         (map_option (\<lambda>h. (calendarData_deps h, calendarData_value h)) before)
              in Inr \<lparr>processedData_deps = pdDeps, processedData_value = pd,
                      displayYears_deps = dyDeps, displayYears_value = dy,
                      calendarData_deps = cdDeps, calendarData_value = cd\<rparr>))"

text \<open>The calendar of the first render.\<close>

definition chart ::
  "(rat \<Rightarrow> string \<Rightarrow> string \<Rightarrow> 'e + rat) \<Rightarrow> string \<Rightarrow> jsdate \<Rightarrow> int \<Rightarrow> transaction list \<Rightarrow> 'e + calendar" where
  "chart conv currency today currentYear data =
     map_sum id calendarData_value (render conv currency today currentYear data None)"

subsection \<open>Colours (getColorIntensity)\<close>

datatype chartType = Income | Expense

text \<open>
  The string the function returns, as a value: \<open>'transparent'\<close>, or
  \<open>`rgba(${r}, ${g}, ${b}, ${opacity})`\<close> with its four numbers.
\<close>

datatype color = Transparent | Rgba nat nat nat rat

text \<open>The local \<open>intensity\<close> of \<open>getColorIntensity\<close>.\<close>

definition intensity :: "rat \<Rightarrow> rat \<Rightarrow> rat" where
  "intensity maxAmount' amount' = min (amount' / maxAmount') 1"

definition getColorIntensity :: "chartType \<Rightarrow> calendar \<Rightarrow> rat \<Rightarrow> color" where
  "getColorIntensity type cd amount' =
     (if amount' = 0 then Transparent
      else
        (let i = intensity (maxAmount cd) amount';
             opacity = max (1 / 10) i
         in if type = Income then Rgba 34 197 94 opacity else Rgba 239 68 68 opacity))"

subsection \<open>Clicks (handleCellClick)\<close>

text \<open>
  \<open>router.push(url)\<close> is the one effect: the result is the URL pushed, or \<open>None\<close>
  when the handler returns without navigating. \<open>tz\<close> is the zone of the browser:
  its offset at each date, in minutes east of UTC.
\<close>

definition formatDateForURL :: "(jsdate \<Rightarrow> int) \<Rightarrow> jsdate \<Rightarrow> string" where
  "formatDateForURL tz d = or_string (Some (toISOString_date tz d)) []"

definition handleCellClick ::
  "chartType \<Rightarrow> (jsdate \<Rightarrow> int) \<Rightarrow> DayData \<Rightarrow> nat \<Rightarrow> nat \<Rightarrow> string option" where
  "handleCellClick type tz cellData monthIndex dayOfMonth =
     (if \<not> isCurrentMonth cellData \<or> count cellData = 0 then None
      else
        (let clickedDate = date cellData;
             startDate = setDate clickedDate (int (getDate clickedDate) - 1);
             endDate = setDate clickedDate (int (getDate clickedDate) + 1);
             startDateStr = formatDateForURL tz startDate;
             endDateStr = formatDateForURL tz endDate;
             targetPath = (if type = Income then ''/incomes'' else ''/expenses'');
             url = targetPath @ ''?startDate='' @ startDateStr @ ''&endDate='' @ endDateStr
         in Some url))"

subsection \<open>The table (csvDataForControls)\<close>

definition activityLevel :: "nat \<Rightarrow> string" where
  "activityLevel n =
     (if n = 0 then ''None''
      else if n = 1 then ''Single''
      else if n \<le> 3 then ''Low''
      else if n \<le> 6 then ''Moderate''
      else ''High'')"

text \<open>A \<open>${...}\<close> of a template string on an array element that may be undefined.\<close>

definition template_string :: "string option \<Rightarrow> string" where
  "template_string a = (case a of None \<Rightarrow> ''undefined'' | Some x \<Rightarrow> x)"

definition csvRow :: "string list \<Rightarrow> nat \<Rightarrow> nat \<Rightarrow> DayData \<Rightarrow> string list" where
  "csvRow names rowIndex colIndex cellData =
     (let averageAmount =
            (if count cellData > 0
             then divide_double (amount cellData) (of_nat (count cellData)) else 0);
          dateString =
            (if isCurrentMonth cellData
             then template_string (js_index names (int colIndex)) @ '' ''
                  @ toString_nat (rowIndex + 1)
             else ''Invalid'')
      in [toString_nat (rowIndex + 1),
          or_string (js_index names (int colIndex)) [],
          dateString,
          if isCurrentMonth cellData then toString_nat (count cellData) else ''0'',
          if isCurrentMonth cellData then toFixed2 (amount cellData) else ''0.00'',
          if isCurrentMonth cellData then toFixed2 averageAmount else ''0.00'',
          if isCurrentMonth cellData then activityLevel (count cellData) else ''N/A'',
          if isCurrentMonth cellData then ''Yes'' else ''No''])"

definition csvDataForControls :: "calendar \<Rightarrow> string list list" where
  "csvDataForControls cd =
     [''Day of Month'', ''Month'', ''Date'', ''Transaction Count'', ''Total Amount'',
      ''Average per Transaction'', ''Activity Level'', ''Valid Day'']
     # concat (map (\<lambda>(rowIndex, row).
                      map (\<lambda>(colIndex, cellData). csvRow (monthNames cd) rowIndex colIndex cellData)
                          (enumerate 0 row))
                   (enumerate 0 (grid cd)))"

subsection \<open>The vector document (downloadCalendarChartAsSVG)\<close>

text \<open>
  The document is the element tree the function builds and hands to
  \<open>XMLSerializer\<close>: the attributes of the root and its children, in the order of
  \<open>appendChild\<close>; an element is its tag, its attributes in the order of
  \<open>setAttribute\<close> and its text. A number set as an attribute is kept as the number
  (\<open>Num\<close>): the attribute is \<open>Number.prototype.toString\<close> of it, which is one-to-one
  on doubles. A colour from \<open>getColorIntensity\<close> is kept as the colour (\<open>Paint\<close>).
  In a text, \<open>LocaleNumber x\<close> stands for \<open>x.toLocaleString()\<close>, which depends on the
  locale of the browser.
\<close>

datatype attrValue = Str string | Num rat | Paint color

datatype textPart = Lit string | LocaleNumber rat

datatype svgElement = Element string "(string \<times> attrValue) list" "textPart list"

datatype svgDocument = Svg "(string \<times> attrValue) list" "svgElement list"

text \<open>
  The geometry. \<open>width\<close> and what is computed from it is arithmetic of doubles; the
  row and column offsets are small integers and halves, where the arithmetic of
  doubles is exact.
\<close>

definition svgWidth :: "rat \<Rightarrow> rat" where
  "svgWidth rectWidth = max 2500 (times_double rectWidth (3 / 2))"

definition svgCellWidth :: "rat \<Rightarrow> rat" where
  "svgCellWidth width =
     (let gridStartX = 40;
          availableWidth = minus_double width (gridStartX * 2);
          dayLabelWidth = 60;
          gridWidth = minus_double availableWidth dayLabelWidth
      in of_int \<lfloor>divide_double gridWidth 12\<rfloor>)"

definition svgBackground :: svgElement where
  "svgBackground =
     Element ''rect''
       [(''width'', Str ''100%''), (''height'', Str ''100%''), (''fill'', Str ''#ffffff'')] []"

definition svgTitle :: "string \<Rightarrow> svgElement" where
  "svgTitle chartTitle =
     Element ''text''
       [(''x'', Str ''40''), (''y'', Str ''40''), (''font-family'', Str ''Arial, sans-serif''),
        (''font-size'', Str ''22''), (''font-weight'', Str ''bold''), (''fill'', Str ''#111827'')]
       [Lit chartTitle]"

definition svgMonthHeader :: "rat \<Rightarrow> nat \<times> string \<Rightarrow> svgElement" where
  "svgMonthHeader cellWidth p =
     (case p of (index, monthName) \<Rightarrow>
        Element ''text''
          [(''x'', Num (plus_double (plus_double (40 + 60) (times_double (of_nat index) cellWidth))
                         (divide_double cellWidth 2))),
           (''y'', Num (100 - 15)), (''text-anchor'', Str ''middle''),
           (''font-family'', Str ''Arial, sans-serif''), (''font-size'', Str ''14''),
           (''font-weight'', Str ''bold''), (''fill'', Str ''#111827'')]
          [Lit monthName])"

definition svgDayLabel :: "nat \<Rightarrow> svgElement" where
  "svgDayLabel rowIndex =
     Element ''text''
       [(''x'', Num (40 + 60 / 2)),
        (''y'', Num (100 + of_nat rowIndex * 25 + 25 / 2 + 5)),
        (''text-anchor'', Str ''middle''), (''font-family'', Str ''Arial, sans-serif''),
        (''font-size'', Str ''12''), (''fill'', Str ''#6b7280'')]
       [Lit (toString_nat (rowIndex + 1))]"

text \<open>
  One cell: its rectangle, and its count when the day exists and has transactions.
  \<open>setAttribute\<close> on an attribute that is already there replaces its value in place.
\<close>

definition svgCell :: "chartType \<Rightarrow> calendar \<Rightarrow> rat \<Rightarrow> nat \<Rightarrow> nat \<times> DayData \<Rightarrow> svgElement list" where
  "svgCell type cd cellWidth rowIndex p =
     (case p of (colIndex, cellData) \<Rightarrow>
        (let x = plus_double (40 + 60) (times_double (of_nat colIndex) cellWidth);
             y = 100 + of_nat rowIndex * 25;
             geometry = [(''x'', Num x), (''y'', Num y),
                         (''width'', Num (minus_double cellWidth 3)), (''height'', Num (25 - 3)),
                         (''rx'', Str ''3'')];
             attributes =
               (if isCurrentMonth cellData then
                  (let backgroundColor = getColorIntensity type cd (amount cellData);
                       valid = geometry @
                         [(''fill'', if backgroundColor = Transparent then Str ''#f9fafb''
                                     else Paint backgroundColor),
                          (''stroke'', Str ''#e5e7eb''), (''stroke-width'', Str ''1'')]
                   in if isToday cellData
                      then Map_set ''stroke-width'' (Str ''2'')
                             (Map_set ''stroke'' (Str ''#3b82f6'') valid)
                      else valid)
                else geometry @
                  [(''fill'', Str ''#f9fafb''), (''stroke'', Str ''#e5e7eb''),
                   (''stroke-width'', Str ''1''), (''opacity'', Str ''0.3'')]);
             cellRect = Element ''rect'' attributes []
         in if count cellData > 0 \<and> isCurrentMonth cellData then
              [cellRect,
               Element ''text''
                 [(''x'', Num (plus_double x (divide_double cellWidth 2))),
                  (''y'', Num (y + 25 / 2 + 4)), (''text-anchor'', Str ''middle''),
                  (''font-family'', Str ''Arial, sans-serif''), (''font-size'', Str ''12''),
                  (''font-weight'', Str ''bold''), (''fill'', Str ''#374151'')]
                 [Lit (toString_nat (count cellData))]]
            else [cellRect]))"

definition svgRow :: "chartType \<Rightarrow> calendar \<Rightarrow> rat \<Rightarrow> nat \<times> DayData list \<Rightarrow> svgElement list" where
  "svgRow type cd cellWidth p =
     (case p of (rowIndex, row) \<Rightarrow>
        svgDayLabel rowIndex # concat (map (svgCell type cd cellWidth rowIndex) (enumerate 0 row)))"

text \<open>
  The legend: the smallest positive bucket amount and the scale maximum, both read
  again from the bucket mapping, and five sample colours.
\<close>

definition positiveAmounts :: "dateMap \<Rightarrow> rat list" where
  "positiveAmounts buckets = filter (\<lambda>amount. amount > 0) (map amount (map snd buckets))"

definition legendMinAmount :: "dateMap \<Rightarrow> rat" where
  "legendMinAmount buckets =
     (case positiveAmounts buckets of [] \<Rightarrow> 0 | a # as \<Rightarrow> fold min as a)"

definition legendMaxScaleAmount :: "dateMap \<Rightarrow> rat" where
  "legendMaxScaleAmount buckets =
     (let sortedAmounts = sort (positiveAmounts buckets)
      in if length sortedAmounts > 0
         then max (or_number (js_index sortedAmounts (percentile80Index sortedAmounts))
                    (or_number (js_index sortedAmounts (int (length sortedAmounts) - 1)) 1)) 1
         else 0)"

definition svgLegendRect :: "chartType \<Rightarrow> rat \<Rightarrow> rat \<Rightarrow> nat \<times> rat \<Rightarrow> svgElement" where
  "svgLegendRect type legendCenterX legendY p =
     (case p of (index, intensity') \<Rightarrow>
        Element ''rect''
          [(''x'', Num (plus_double (minus_double legendCenterX 60) (of_nat index * 24))),
           (''y'', Num (legendY - 15)), (''width'', Str ''20''), (''height'', Str ''20''),
           (''rx'', Str ''3''), (''stroke'', Str ''#e5e7eb''), (''stroke-width'', Str ''1''),
           (''fill'', if intensity' = 0 then Str ''#f3f4f6''
                      else if type = Income then Paint (Rgba 34 197 94 intensity')
                      else Paint (Rgba 239 68 68 intensity'))]
          [])"

definition svgLegend :: "chartType \<Rightarrow> string \<Rightarrow> rat \<Rightarrow> nat \<Rightarrow> dateMap \<Rightarrow> svgElement list" where
  "svgLegend type currency width rows buckets =
     (let legendY = 100 + of_nat rows * 25 + 60;
          legendCenterX = divide_double width 2;
          legendText =
            Element ''text''
              [(''x'', Num (minus_double legendCenterX 140)), (''y'', Num legendY),
               (''font-family'', Str ''Arial, sans-serif''), (''font-size'', Str ''14''),
               (''fill'', Str ''#6b7280'')]
              [Lit (''Less ['' @ currency @ '' ''), LocaleNumber (legendMinAmount buckets),
               Lit '']''];
          moreText =
            Element ''text''
              [(''x'', Num (plus_double legendCenterX 80)), (''y'', Num legendY),
               (''font-family'', Str ''Arial, sans-serif''), (''font-size'', Str ''14''),
               (''fill'', Str ''#6b7280'')]
              [Lit (''More ['' @ currency @ '' ''), LocaleNumber (legendMaxScaleAmount buckets),
               Lit '']'']
      in legendText
         # map (svgLegendRect type legendCenterX legendY)
             (enumerate 0 [0, 1 / 4, 1 / 2, 3 / 4, 1])
         @ [moreText])"

text \<open>
  The function: \<open>rect\<close> is the size of the chart element
  (\<open>chartRef.current.getBoundingClientRect()\<close>), \<open>None\<close> when there is no element,
  and then there is no document. \<open>chartTitle\<close> is the title the component shows,
  \<open>buckets\<close> its \<open>processedData\<close>.
\<close>

definition downloadCalendarChartAsSVG ::
  "(rat \<times> rat) option \<Rightarrow> string \<Rightarrow> chartType \<Rightarrow> string \<Rightarrow> calendar \<Rightarrow> dateMap
     \<Rightarrow> svgDocument option" where
  "downloadCalendarChartAsSVG rect chartTitle type currency cd buckets =
     (case rect of
        None \<Rightarrow> None
      | Some (rectWidth, rectHeight) \<Rightarrow>
          (let width = svgWidth rectWidth;
               height = max 1000 rectHeight;
               cellWidth = svgCellWidth width
           in Some (Svg
                [(''width'', Num width), (''height'', Num height),
                 (''xmlns'', Str ''http://www.w3.org/2000/svg'')]
                (svgBackground # svgTitle chartTitle
                 # map (svgMonthHeader cellWidth) (enumerate 0 (monthNames cd))
                 @ concat (map (svgRow type cd cellWidth) (enumerate 0 (grid cd)))
                 @ svgLegend type currency width (length (grid cd)) buckets))))"

text \<open>The two exports of the component after a render.\<close>

definition exportCSV :: "hooks \<Rightarrow> string list list" where
  "exportCSV h = csvDataForControls (calendarData_value h)"

definition exportSVG ::
  "(rat \<times> rat) option \<Rightarrow> string \<Rightarrow> chartType \<Rightarrow> string \<Rightarrow> hooks \<Rightarrow> svgDocument option" where
  "exportSVG rect chartTitle type currency h =
     downloadCalendarChartAsSVG rect chartTitle type currency
       (calendarData_value h) (processedData_value h)"

subsection \<open>Notions of the specification\<close>

text \<open>
  The scale as the specification words it: from the ascending-sorted list of the
  strictly positive cell amounts of the grid, read at \<open>floor(n * 0.8)\<close> clamped to the
  last index, at least \<open>1\<close>, and \<open>1\<close> when no cell amount is positive.
\<close>

definition spec_maxAmountP80 :: "DayData list list \<Rightarrow> rat" where
  "spec_maxAmountP80 g =
     (let sorted = sort (filter (\<lambda>a. a > 0) (map amount (concat g)));
          n = length sorted
      in if n = 0 then 1 else max (sorted ! min (n * 4 div 5) (n - 1)) 1)"

subsection \<open>Notions used in the statements\<close>

text \<open>The key of a transaction, and what a bucket mapping holds at a key.\<close>

definition txKey :: "transaction \<Rightarrow> string" where
  "txKey t = dateKey (getFullYear (tx_date t)) (getMonth (tx_date t)) (getDate (tx_date t))"

definition countAt :: "dateMap \<Rightarrow> string \<Rightarrow> nat" where
  "countAt m k = (case map_of m k of None \<Rightarrow> 0 | Some b \<Rightarrow> count b)"

definition amountAt :: "dateMap \<Rightarrow> string \<Rightarrow> rat" where
  "amountAt m k = (case map_of m k of None \<Rightarrow> 0 | Some b \<Rightarrow> amount b)"

text \<open>A calendar date that exists: what the getters of a valid \<open>Date\<close> return.\<close>

definition validDate :: "jsdate \<Rightarrow> bool" where
  "validDate d =
     (getMonth d < 12 \<and> 1 \<le> getDate d
      \<and> int (getDate d) \<le> daysInMonth (getFullYear d) (int (getMonth d)))"

text \<open>
  The conversion of one transaction, and the exception of the first transaction
  whose conversion throws.
\<close>

definition convertTx ::
  "(rat \<Rightarrow> string \<Rightarrow> string \<Rightarrow> 'e + rat) \<Rightarrow> string \<Rightarrow> transaction \<Rightarrow> 'e + rat" where
  "convertTx conv currency t =
     conv (tx_amount t) (tx_currency t) (if currency = [] then ''USD'' else currency)"

fun firstFailure ::
  "(rat \<Rightarrow> string \<Rightarrow> string \<Rightarrow> 'e + rat) \<Rightarrow> string \<Rightarrow> transaction list \<Rightarrow> 'e option" where
  "firstFailure conv currency [] = None"
| "firstFailure conv currency (t # ts) =
     (case convertTx conv currency t of
        Inl e \<Rightarrow> Some e
      | Inr a \<Rightarrow> firstFailure conv currency ts)"

definition converted ::
  "(rat \<Rightarrow> string \<Rightarrow> string \<Rightarrow> 'e + rat) \<Rightarrow> string \<Rightarrow> transaction \<Rightarrow> rat" where
  "converted conv currency t = (case convertTx conv currency t of Inl e \<Rightarrow> 0 | Inr a \<Rightarrow> a)"

text \<open>The sum of \<open>cell.count\<close> over the cells of a grid.\<close>

definition gridCount :: "DayData list list \<Rightarrow> nat" where
  "gridCount g = sum_list (map count (concat g))"

text \<open>The number a string of decimal digits stands for.\<close>

definition digitsValue :: "string \<Rightarrow> nat" where
  "digitsValue s = foldl (\<lambda>a c. 10 * a + (of_char c - 48)) 0 s"

subsection \<open>Example inputs\<close>

text \<open>
  The transactions of the specification's first scenario and their bucket mapping, a
  transaction on a leap day and its bucket mapping, a transaction in a currency
  \<open>XXX\<close>, two transaction sets that differ in two amounts only and their bucket
  mappings, two bucket mappings with four transactions on March 5 of two years
  (three and one, two and two, in the other order), a transaction before and after an edit of its date and amount, a
  conversion that is the identity, a conversion that throws on the currency \<open>XXX\<close>,
  and a day to be today.
\<close>

definition scenario1 :: "transaction list" where
  "scenario1 =
     [\<lparr>tx_id = 1, tx_date = \<lparr>getFullYear = 2023, getMonth = 2, getDate = 5\<rparr>,
       tx_amount = 100, tx_currency = ''USD''\<rparr>,
      \<lparr>tx_id = 2, tx_date = \<lparr>getFullYear = 2024, getMonth = 2, getDate = 5\<rparr>,
       tx_amount = 50, tx_currency = ''USD''\<rparr>]"

definition leapDayTx :: transaction where
  "leapDayTx =
     \<lparr>tx_id = 3, tx_date = \<lparr>getFullYear = 2024, getMonth = 1, getDate = 29\<rparr>,
      tx_amount = 20, tx_currency = ''USD''\<rparr>"

definition foreignTx :: transaction where
  "foreignTx =
     \<lparr>tx_id = 4, tx_date = \<lparr>getFullYear = 2024, getMonth = 2, getDate = 5\<rparr>,
      tx_amount = 10, tx_currency = ''XXX''\<rparr>"

definition scenario1Buckets :: dateMap where
  "scenario1Buckets =
     [(''2023-2-5'', \<lparr>count = 1, amount = 100\<rparr>), (''2024-2-5'', \<lparr>count = 1, amount = 50\<rparr>)]"

definition leapDayBuckets :: dateMap where
  "leapDayBuckets = [(''2024-1-29'', \<lparr>count = 1, amount = 20\<rparr>)]"

definition legendDataA :: "transaction list" where
  "legendDataA =
     [\<lparr>tx_id = 1, tx_date = \<lparr>getFullYear = 2023, getMonth = 2, getDate = 5\<rparr>,
       tx_amount = 100, tx_currency = ''USD''\<rparr>,
      \<lparr>tx_id = 2, tx_date = \<lparr>getFullYear = 2024, getMonth = 2, getDate = 5\<rparr>,
       tx_amount = 50, tx_currency = ''USD''\<rparr>,
      \<lparr>tx_id = 3, tx_date = \<lparr>getFullYear = 2023, getMonth = 3, getDate = 1\<rparr>,
       tx_amount = 30, tx_currency = ''USD''\<rparr>,
      \<lparr>tx_id = 4, tx_date = \<lparr>getFullYear = 2024, getMonth = 3, getDate = 1\<rparr>,
       tx_amount = 20, tx_currency = ''USD''\<rparr>]"

definition legendDataB :: "transaction list" where
  "legendDataB =
     [\<lparr>tx_id = 1, tx_date = \<lparr>getFullYear = 2023, getMonth = 2, getDate = 5\<rparr>,
       tx_amount = 100, tx_currency = ''USD''\<rparr>,
      \<lparr>tx_id = 2, tx_date = \<lparr>getFullYear = 2024, getMonth = 2, getDate = 5\<rparr>,
       tx_amount = 50, tx_currency = ''USD''\<rparr>,
      \<lparr>tx_id = 3, tx_date = \<lparr>getFullYear = 2023, getMonth = 3, getDate = 1\<rparr>,
       tx_amount = 40, tx_currency = ''USD''\<rparr>,
      \<lparr>tx_id = 4, tx_date = \<lparr>getFullYear = 2024, getMonth = 3, getDate = 1\<rparr>,
       tx_amount = 10, tx_currency = ''USD''\<rparr>]"

definition legendBucketsA :: dateMap where
  "legendBucketsA =
     [(''2023-2-5'', \<lparr>count = 1, amount = 100\<rparr>), (''2024-2-5'', \<lparr>count = 1, amount = 50\<rparr>),
      (''2023-3-1'', \<lparr>count = 1, amount = 30\<rparr>), (''2024-3-1'', \<lparr>count = 1, amount = 20\<rparr>)]"

definition legendBucketsB :: dateMap where
  "legendBucketsB =
     [(''2023-2-5'', \<lparr>count = 1, amount = 100\<rparr>), (''2024-2-5'', \<lparr>count = 1, amount = 50\<rparr>),
      (''2023-3-1'', \<lparr>count = 1, amount = 40\<rparr>), (''2024-3-1'', \<lparr>count = 1, amount = 10\<rparr>)]"

definition busyBucketsA :: dateMap where
  "busyBucketsA =
     [(''2023-2-5'', \<lparr>count = 3, amount = 100\<rparr>), (''2024-2-5'', \<lparr>count = 1, amount = 50\<rparr>)]"

definition busyBucketsB :: dateMap where
  "busyBucketsB =
     [(''2024-2-5'', \<lparr>count = 2, amount = 50\<rparr>), (''2023-2-5'', \<lparr>count = 2, amount = 100\<rparr>)]"

definition editedBefore :: transaction where
  "editedBefore =
     \<lparr>tx_id = 1, tx_date = \<lparr>getFullYear = 2023, getMonth = 2, getDate = 5\<rparr>,
      tx_amount = 10, tx_currency = ''USD''\<rparr>"

definition editedAfter :: transaction where
  "editedAfter =
     \<lparr>tx_id = 1, tx_date = \<lparr>getFullYear = 2024, getMonth = 2, getDate = 5\<rparr>,
      tx_amount = 20, tx_currency = ''USD''\<rparr>"

definition identityConversion :: "rat \<Rightarrow> string \<Rightarrow> string \<Rightarrow> string + rat" where
  "identityConversion a c c' = Inr a"

definition failingConversion :: "rat \<Rightarrow> string \<Rightarrow> string \<Rightarrow> string + rat" where
  "failingConversion a c c' = (if c = ''XXX'' then Inl ''no rate'' else Inr a)"

definition midJune2025 :: jsdate where
  "midJune2025 = \<lparr>getFullYear = 2025, getMonth = 5, getDate = 15\<rparr>"

section \<open>Properties\<close>

subsection \<open>Keys are injective\<close>

text \<open>
  The recursive equations of \<open>toString_nat\<close> and \<open>normDay\<close> are conditional on their
  argument: they are unfolded by hand.
\<close>

declare toString_nat.simps [simp del]

declare normDay.simps [simp del]

lemma digit_codes: "map of_char ''0123456789'' = map (\<lambda>k. 48 + k) [0..<10::nat]"
  by code_simp

lemma digit_code: "n < 10 \<Longrightarrow> of_char (digit n) = 48 + n"
proof -
  assume n: "n < 10"
  then have "of_char (digit n) = map of_char ''0123456789'' ! n"
    by (simp add: digit_def del: list.map)
  also have "\<dots> = (48 + n :: nat)"
    using n by (simp only: digit_codes) simp
  finally show ?thesis .
qed

lemma digit_not_minus: "n < 10 \<Longrightarrow> digit n \<noteq> CHR ''-''"
  using digit_code [of n] by auto

lemma toString_nat_small: "n < 10 \<Longrightarrow> toString_nat n = [digit n]"
  by (subst toString_nat.simps) simp

lemma toString_nat_large:
  "\<not> n < 10 \<Longrightarrow> toString_nat n = toString_nat (n div 10) @ [digit (n mod 10)]"
  by (subst toString_nat.simps) simp

lemma digitsValue_snoc: "digitsValue (s @ [c]) = 10 * digitsValue s + (of_char c - 48)"
  by (simp add: digitsValue_def)

lemma digitsValue_toString_nat: "digitsValue (toString_nat n) = n"
proof (induction n rule: toString_nat.induct)
  case (1 n)
  show ?case
  proof (cases "n < 10")
    case True
    then show ?thesis
      using digitsValue_snoc [of "[]" "digit n"]
      by (simp add: toString_nat_small digit_code digitsValue_def)
  next
    case False
    have m: "n mod 10 < 10" by simp
    from False 1 have ih: "digitsValue (toString_nat (n div 10)) = n div 10" by simp
    have "digitsValue (toString_nat n) = 10 * (n div 10) + (of_char (digit (n mod 10)) - 48)"
      by (simp only: toString_nat_large [OF False] digitsValue_snoc ih)
    also have "\<dots> = 10 * (n div 10) + n mod 10"
      by (simp add: digit_code [OF m])
    finally show ?thesis by simp
  qed
qed

lemma toString_nat_inj: "toString_nat a = toString_nat b \<Longrightarrow> a = b"
  by (metis digitsValue_toString_nat)

lemma toString_nat_no_minus: "CHR ''-'' \<notin> set (toString_nat n)"
proof (induction n rule: toString_nat.induct)
  case (1 n)
  show ?case
  proof (cases "n < 10")
    case True
    then show ?thesis using digit_not_minus [of n] by (simp add: toString_nat_small)
  next
    case False
    have m: "n mod 10 < 10" by simp
    from False 1 have "CHR ''-'' \<notin> set (toString_nat (n div 10))" by simp
    then show ?thesis
      using digit_not_minus [OF m] by (simp add: toString_nat_large [OF False])
  qed
qed

lemma toString_nat_nonempty: "toString_nat n \<noteq> []"
  by (cases "n < 10") (simp_all add: toString_nat_small toString_nat_large)

lemma toString_nat_hd: "hd (toString_nat n) \<noteq> CHR ''-''"
  using toString_nat_no_minus [of n] toString_nat_nonempty [of n] hd_in_set by metis

lemma toString_int_inj: "toString_int a = toString_int b \<Longrightarrow> a = b"
proof -
  assume eq: "toString_int a = toString_int b"
  show ?thesis
  proof (cases "a < 0")
    case a: True
    show ?thesis
    proof (cases "b < 0")
      case True
      with a eq have "toString_nat (nat (- a)) = toString_nat (nat (- b))"
        by (simp add: toString_int_def)
      then have "nat (- a) = nat (- b)" by (rule toString_nat_inj)
      with a True show ?thesis by simp
    next
      case False
      with a eq have "CHR ''-'' # toString_nat (nat (- a)) = toString_nat (nat b)"
        by (simp add: toString_int_def)
      then have "hd (toString_nat (nat b)) = CHR ''-''" by (metis list.sel(1))
      with toString_nat_hd show ?thesis by blast
    qed
  next
    case a: False
    show ?thesis
    proof (cases "b < 0")
      case True
      with a eq have "toString_nat (nat a) = CHR ''-'' # toString_nat (nat (- b))"
        by (simp add: toString_int_def)
      then have "hd (toString_nat (nat a)) = CHR ''-''" by (metis list.sel(1))
      with toString_nat_hd show ?thesis by blast
    next
      case False
      with a eq have "toString_nat (nat a) = toString_nat (nat b)"
        by (simp add: toString_int_def)
      then have "nat a = nat b" by (rule toString_nat_inj)
      with a False show ?thesis by simp
    qed
  qed
qed

lemma split_first_sep:
  "c \<notin> set xs \<Longrightarrow> c \<notin> set xs' \<Longrightarrow> xs @ c # ys = xs' @ c # ys' \<Longrightarrow> xs = xs' \<and> ys = ys'"
proof (induction xs arbitrary: xs')
  case Nil
  then show ?case by (cases xs') auto
next
  case (Cons a xs)
  then show ?case by (cases xs') auto
qed

lemma split_last_sep:
  assumes "xs @ c # ys = xs' @ c # ys'" and "c \<notin> set ys" and "c \<notin> set ys'"
  shows "xs = xs' \<and> ys = ys'"
proof -
  from assms(1) have "rev (xs @ c # ys) = rev (xs' @ c # ys')" by simp
  then have e: "rev ys @ c # rev xs = rev ys' @ c # rev xs'" by simp
  have n: "c \<notin> set (rev ys)" "c \<notin> set (rev ys')" using assms by simp_all
  from split_first_sep [OF n e] show ?thesis by simp
qed

lemma dateKey_inj:
  assumes "dateKey y m d = dateKey y' m' d'"
  shows "y = y' \<and> m = m' \<and> d = d'"
proof -
  let ?c = "CHR ''-''"
  from assms have "(toString_int y @ ?c # toString_nat m) @ ?c # toString_nat d
      = (toString_int y' @ ?c # toString_nat m') @ ?c # toString_nat d'"
    by (simp add: dateKey_def)
  from split_last_sep [OF this toString_nat_no_minus toString_nat_no_minus]
  have 1: "toString_int y @ ?c # toString_nat m = toString_int y' @ ?c # toString_nat m'"
    and 2: "toString_nat d = toString_nat d'" by simp_all
  from split_last_sep [OF 1 toString_nat_no_minus toString_nat_no_minus]
  have "toString_int y = toString_int y'" and "toString_nat m = toString_nat m'" by simp_all
  with 2 show ?thesis
    using toString_int_inj toString_nat_inj by blast
qed

lemma dateKey_eq_iff: "dateKey y m d = dateKey y' m' d' \<longleftrightarrow> y = y' \<and> m = m' \<and> d = d'"
  using dateKey_inj by blast

subsection \<open>The bucket mapping\<close>

lemma map_of_Map_set: "map_of (Map_set k v m) = (map_of m)(k \<mapsto> v)"
  by (induction m) (auto simp: fun_eq_iff)

lemma txKey_eq_iff:
  "txKey t = dateKey y m d \<longleftrightarrow>
     getFullYear (tx_date t) = y \<and> getMonth (tx_date t) = m \<and> getDate (tx_date t) = d"
  by (simp add: txKey_def dateKey_eq_iff)

lemma addTransaction_Inl:
  "convertTx conv cur t = Inl e \<Longrightarrow> addTransaction conv cur m t = Inl e"
  by (simp add: addTransaction_def convertTx_def Let_def split: option.splits)

lemma addTransaction_Inr:
  assumes "convertTx conv cur t = Inr a"
  shows "\<exists>m'. addTransaction conv cur m t = Inr m'
           \<and> map_of m' = (map_of m)(txKey t \<mapsto>
                 \<lparr>count = countAt m (txKey t) + 1, amount = amountAt m (txKey t) + a\<rparr>)"
proof (cases "map_of m (txKey t)")
  case None
  with assms show ?thesis
    by (simp add: addTransaction_def convertTx_def txKey_def [symmetric] Let_def map_of_Map_set
        countAt_def amountAt_def)
next
  case (Some c)
  with assms show ?thesis
    by (cases c) (simp add: addTransaction_def convertTx_def txKey_def [symmetric] Let_def map_of_Map_set
        countAt_def amountAt_def)
qed

lemma forEach_failure:
  "firstFailure conv cur data = Some e \<Longrightarrow> forEach_transaction conv cur m data = Inl e"
proof (induction data arbitrary: m)
  case Nil
  then show ?case by simp
next
  case (Cons t ts)
  show ?case
  proof (cases "convertTx conv cur t")
    case (Inl e')
    with Cons.prems show ?thesis by (simp add: addTransaction_Inl)
  next
    case (Inr a)
    with Cons.prems have ff: "firstFailure conv cur ts = Some e" by simp
    from addTransaction_Inr [OF Inr] obtain m' where "addTransaction conv cur m t = Inr m'"
      by blast
    then show ?thesis using Cons.IH [OF ff] by simp
  qed
qed

lemma forEach_success:
  "firstFailure conv cur data = None \<Longrightarrow>
   \<exists>m'. forEach_transaction conv cur m data = Inr m'
     \<and> (\<forall>k. countAt m' k = countAt m k + length (filter (\<lambda>t. txKey t = k) data))
     \<and> (\<forall>k. amountAt m' k
            = amountAt m k + sum_list (map (converted conv cur) (filter (\<lambda>t. txKey t = k) data)))"
proof (induction data arbitrary: m)
  case Nil
  then show ?case by simp
next
  case (Cons t ts)
  from Cons.prems obtain a where a: "convertTx conv cur t = Inr a"
    by (cases "convertTx conv cur t") simp_all
  with Cons.prems have ff: "firstFailure conv cur ts = None" by simp
  from addTransaction_Inr [OF a] obtain m1 where
    m1: "addTransaction conv cur m t = Inr m1"
    and mo: "map_of m1 = (map_of m)(txKey t \<mapsto>
                 \<lparr>count = countAt m (txKey t) + 1, amount = amountAt m (txKey t) + a\<rparr>)"
    by blast
  from Cons.IH [OF ff, of m1] obtain m' where
    r: "forEach_transaction conv cur m1 ts = Inr m'"
    and c: "\<And>k. countAt m' k = countAt m1 k + length (filter (\<lambda>t. txKey t = k) ts)"
    and s: "\<And>k. amountAt m' k
            = amountAt m1 k + sum_list (map (converted conv cur) (filter (\<lambda>t. txKey t = k) ts))"
    by blast
  have c1: "\<And>k. countAt m1 k = countAt m k + (if txKey t = k then 1 else 0)"
    by (simp add: countAt_def mo)
  have s1: "\<And>k. amountAt m1 k = amountAt m k + (if txKey t = k then a else 0)"
    by (simp add: amountAt_def mo)
  have cv: "converted conv cur t = a" by (simp add: converted_def a)
  show ?case
  proof (intro exI conjI allI)
    show "forEach_transaction conv cur m (t # ts) = Inr m'" using m1 r by simp
  next
    fix k show "countAt m' k = countAt m k + length (filter (\<lambda>t. txKey t = k) (t # ts))"
      by (simp add: c c1)
  next
    fix k show "amountAt m' k = amountAt m k
        + sum_list (map (converted conv cur) (filter (\<lambda>t. txKey t = k) (t # ts)))"
      by (simp add: s s1 cv)
  qed
qed

lemma countAt_Nil: "countAt [] k = 0" and amountAt_Nil: "amountAt [] k = 0"
  by (simp_all add: countAt_def amountAt_def)

lemma processedData_Inr:
  assumes "processedData conv cur data = Inr pd"
  shows "firstFailure conv cur data = None"
    and "countAt pd k = length (filter (\<lambda>t. txKey t = k) data)"
    and "amountAt pd k = sum_list (map (converted conv cur) (filter (\<lambda>t. txKey t = k) data))"
proof -
  show ff: "firstFailure conv cur data = None"
  proof (cases "firstFailure conv cur data")
    case (Some e)
    from forEach_failure [OF this, of "[]"] assms show ?thesis
      by (simp add: processedData_def)
  qed simp
  from forEach_success [OF ff, of "[]"] assms
  show "countAt pd k = length (filter (\<lambda>t. txKey t = k) data)"
    and "amountAt pd k = sum_list (map (converted conv cur) (filter (\<lambda>t. txKey t = k) data))"
    by (auto simp: processedData_def countAt_Nil amountAt_Nil)
qed

subsection \<open>The years\<close>




subsection \<open>Cells\<close>

lemma fold_addYear:
  "fold (addYear b today d m) ys (c, a, h) =
     (c + sum_list (map (\<lambda>y. countAt b (dateKey y m d)) ys),
      a + sum_list (map (\<lambda>y. amountAt b (dateKey y m d)) ys),
      h \<or> (\<exists>y\<in>set ys. newDate y (int m) (int d) = today))"
proof (induction ys arbitrary: c a h)
  case Nil
  then show ?case by simp
next
  case (Cons y ys)
  have "addYear b today d m y (c, a, h) =
      (c + countAt b (dateKey y m d), a + amountAt b (dateKey y m d),
       h \<or> newDate y (int m) (int d) = today)"
    by (simp add: addYear_def countAt_def amountAt_def Let_def split: option.splits)
  then show ?case using Cons.IH by (auto simp: add.assoc)
qed

lemma cell_isCurrentMonth:
  "isCurrentMonth (cell b ys today cy d m) = (d \<le> lastDayOfMonth cy m)"
  by (simp add: cell_def Let_def split: prod.splits)

lemma cell_count:
  "count (cell b ys today cy d m) =
     (if d \<le> lastDayOfMonth cy m then sum_list (map (\<lambda>y. countAt b (dateKey y m d)) ys) else 0)"
  by (simp add: cell_def Let_def fold_addYear)

lemma cell_amount:
  "amount (cell b ys today cy d m) =
     (if d \<le> lastDayOfMonth cy m then sum_list (map (\<lambda>y. amountAt b (dateKey y m d)) ys) else 0)"
  by (simp add: cell_def Let_def fold_addYear)

lemma cell_date: "date (cell b ys today cy d m) = newDate cy (int m) (int d)"
  by (simp add: cell_def Let_def split: prod.splits)

lemma grid_length: "length (grid (calendarData b ys today cy)) = 31"
  by (simp add: calendarData_def)

lemma grid_row_length: "row \<in> set (grid (calendarData b ys today cy)) \<Longrightarrow> length row = 12"
  by (auto simp: calendarData_def)

lemma grid_nth:
  "i < 31 \<Longrightarrow> j < 12 \<Longrightarrow> grid (calendarData b ys today cy) ! i ! j = cell b ys today cy (i + 1) j"
  by (simp add: calendarData_def)

subsection \<open>The month lengths of the reference year\<close>

lemma daysInMonth_range: "28 \<le> daysInMonth y m \<and> daysInMonth y m \<le> 31"
  by (simp add: daysInMonth_def)

lemma normDay_in_range:
  "1 \<le> d \<Longrightarrow> d \<le> daysInMonth y m \<Longrightarrow>
   normDay y m d = \<lparr>getFullYear = y, getMonth = nat m, getDate = nat d\<rparr>"
  by (subst normDay.simps) simp

lemma normDay_zero:
  "normDay y m 0 =
     (let py = (if m = 0 then y - 1 else y); pm = (if m = 0 then 11 else m - 1)
      in \<lparr>getFullYear = py, getMonth = nat pm, getDate = nat (daysInMonth py pm)\<rparr>)"
proof -
  have r: "\<And>py pm. normDay py pm (daysInMonth py pm)
      = \<lparr>getFullYear = py, getMonth = nat pm, getDate = nat (daysInMonth py pm)\<rparr>"
    using daysInMonth_range by (intro normDay_in_range) (simp_all add: order_trans [of 1 28])
  show ?thesis
    by (subst normDay.simps) (simp add: Let_def r)
qed

lemma lastDayOfMonth_eq:
  assumes "m < 12"
  shows "int (lastDayOfMonth cy m) = daysInMonth (fullYear cy) (int m)"
proof (cases "m = 11")
  case True
  then show ?thesis
    using daysInMonth_range [of "fullYear cy" 11]
    by (simp add: lastDayOfMonth_def newDate_def normDay_zero Let_def)
next
  case False
  with assms have "(int m + 1) div 12 = 0" "(int m + 1) mod 12 = int m + 1" by simp_all
  then show ?thesis
    using daysInMonth_range [of "fullYear cy" "int m"]
    by (simp add: lastDayOfMonth_def newDate_def normDay_zero Let_def)
qed


subsection \<open>Counting transactions cell by cell\<close>






subsection \<open>The examples, evaluated\<close>

lemma processedData_scenario1:
  "processedData identityConversion ''USD'' scenario1 =
     Inr scenario1Buckets"
  by code_simp

lemma displayYears_scenario1: "displayYears scenario1 = [2023, 2024]"
  by code_simp



lemma displayYears_leapDay: "displayYears [leapDayTx] = [2024]"
  by code_simp

lemma lastDayOfMonth_Feb_2025: "lastDayOfMonth 2025 1 = 28"
  by code_simp

lemma processedData_foreign:
  "processedData failingConversion ''USD'' (foreignTx # scenario1) = Inl ''no rate''"
  by code_simp


lemma render_first:
  "render conv cur today cy data None =
     (case processedData conv cur data of
        Inl e \<Rightarrow> Inl e
      | Inr pd \<Rightarrow>
          Inr \<lparr>processedData_deps =
                 (length data, cur,
                  fold (\<lambda>item sum. sum + tx_amount item + of_int (tx_id item)) data 0),
               processedData_value = pd,
               displayYears_deps = (length data, fold (\<lambda>item sum. sum + tx_id item) data 0),
               displayYears_value = displayYears data,
               calendarData_deps =
                 (length pd, length (displayYears data),
                  join '','' (map toString_int (displayYears data)),
                  fold (\<lambda>d sum. sum + of_nat (count d) + amount d) (map snd pd) 0),
               calendarData_value = calendarData pd (displayYears data) today cy\<rparr>)"
  by (simp add: render_def useMemo_def Let_def split: sum.splits)

lemma chart_eq:
  "chart conv cur today cy data =
     (case processedData conv cur data of
        Inl e \<Rightarrow> Inl e
      | Inr pd \<Rightarrow> Inr (calendarData pd (displayYears data) today cy))"
  by (simp add: chart_def render_first split: sum.splits)

lemma chart_Inr:
  "chart conv cur today cy data = Inr c \<longleftrightarrow>
     (\<exists>pd. processedData conv cur data = Inr pd
        \<and> c = calendarData pd (displayYears data) today cy)"
  by (cases "processedData conv cur data") (auto simp: chart_eq)

subsection \<open>C1: the counts of the grid and the number of transactions\<close>


text \<open>
  The bucket mapping, the years and the grid are memoised on keys that hold no date.
  After an edit that changes the date and the amount of a transaction and keeps its
  id, the next render computes the bucket mapping and the grid again and keeps the
  years of the render before: the transaction, now of 2024, is in no cell of a grid
  built for the year 2023.
\<close>

lemma render_after_edit:
  "render identityConversion ''USD'' midJune2025 2025 [editedBefore] None = Inr h \<Longrightarrow>
   \<exists>h'. render identityConversion ''USD'' midJune2025 2025 [editedAfter] (Some h) = Inr h'
      \<and> map fst (processedData_value h') = [''2024-2-5'']
      \<and> displayYears_value h' = [2023]
      \<and> calendarData_value h'
          = calendarData (processedData_value h') [2023] midJune2025 2025
      \<and> gridCount (grid (calendarData_value h')) = 0"
proof -
  assume r: "render identityConversion ''USD'' midJune2025 2025 [editedBefore] None = Inr h"
  have p1: "processedData identityConversion ''USD'' [editedBefore]
              = Inr [(''2023-2-5'', \<lparr>count = 1, amount = 10\<rparr>)]"
    by code_simp
  have p2: "processedData identityConversion ''USD'' [editedAfter]
              = Inr [(''2024-2-5'', \<lparr>count = 1, amount = 20\<rparr>)]"
    by code_simp
  have y1: "displayYears [editedBefore] = [2023]" by code_simp
  have f: "tx_amount editedBefore = 10" "tx_id editedBefore = 1"
    "tx_amount editedAfter = 20" "tx_id editedAfter = 1"
    by (simp_all add: editedBefore_def editedAfter_def)
  have h: "h = \<lparr>processedData_deps = (1, ''USD'', 11),
                processedData_value = [(''2023-2-5'', \<lparr>count = 1, amount = 10\<rparr>)],
                displayYears_deps = (1, 1),
                displayYears_value = [2023],
                calendarData_deps = (1, 1, toString_int 2023, 11),
                calendarData_value =
                  calendarData [(''2023-2-5'', \<lparr>count = 1, amount = 10\<rparr>)] [2023] midJune2025 2025\<rparr>"
    using r by (simp add: render_first p1 y1 f)
  define pd :: dateMap where "pd = [(''2024-2-5'', \<lparr>count = 1, amount = 20\<rparr>)]"
  have r': "render identityConversion ''USD'' midJune2025 2025 [editedAfter] (Some h) =
     Inr \<lparr>processedData_deps = (1, ''USD'', 21),
          processedData_value = pd,
          displayYears_deps = (1, 1),
          displayYears_value = [2023],
          calendarData_deps = (1, 1, toString_int 2023, 21),
          calendarData_value = calendarData pd [2023] midJune2025 2025\<rparr>"
    by (simp add: render_def useMemo_def Let_def p2 h f pd_def)
  have "countAt pd (dateKey y m d) = 0" if "y = 2023" for y m d
  proof -
    have "countAt pd (dateKey y m d)
        = length (filter (\<lambda>t. txKey t = dateKey y m d) [editedAfter])"
      using processedData_Inr(2) [OF p2 [folded pd_def]] by simp
    also have "\<dots> = 0"
      using that by (simp add: txKey_eq_iff editedAfter_def)
    finally show ?thesis .
  qed
  then have z: "count (cell pd [2023] midJune2025 2025 d m) = 0" for d m
    by (simp add: cell_count)
  have "gridCount (grid (calendarData pd [2023] midJune2025 2025)) = 0"
    by (simp add: gridCount_def calendarData_def z)
  with r' show ?thesis by (simp add: pd_def)
qed



subsection \<open>C2: a conversion that throws\<close>

text \<open>
  C2, as stated: when the conversion throws on some transaction, the aggregation pass
  still completes, and every other transaction is accumulated. It fails: the call of
  \<open>convertForDisplaySync\<close> stands in the loop body with no handler, so the exception
  ends the pass and no bucket mapping is returned. Here the first of three
  transactions has a currency the conversion throws on.
\<close>

theorem conversion_failure_counterexample:
  "processedData failingConversion ''USD'' (foreignTx # scenario1) = Inl ''no rate''"
  by (rule processedData_foreign)

text \<open>
  C2, amended: the aggregation pass completes exactly when the conversion throws on
  no transaction, and then every transaction is accumulated: the bucket of a key
  counts the transactions with that key and holds the sum of their converted
  amounts. When the conversion throws on some transaction, the pass ends with the
  exception of the first such transaction and returns no bucket mapping.
\<close>

theorem processedData_completes_or_throws:
  "case firstFailure conv cur data of
     Some e \<Rightarrow> processedData conv cur data = Inl e
   | None \<Rightarrow>
       (\<exists>pd. processedData conv cur data = Inr pd
          \<and> (\<forall>k. countAt pd k = length (filter (\<lambda>t. txKey t = k) data))
          \<and> (\<forall>k. amountAt pd k
                 = sum_list (map (converted conv cur) (filter (\<lambda>t. txKey t = k) data))))"
proof (cases "firstFailure conv cur data")
  case None
  from forEach_success [OF None, of "[]"] show ?thesis
    by (simp add: None processedData_def countAt_Nil amountAt_Nil)
next
  case (Some e)
  from forEach_failure [OF Some, of "[]"] show ?thesis
    by (simp add: Some processedData_def)
qed

lemma firstFailure_foreign:
  "firstFailure failingConversion ''USD'' (foreignTx # scenario1) = Some ''no rate''"
  by (simp add: convertTx_def failingConversion_def foreignTx_def)

lemma firstFailure_scenario1: "firstFailure failingConversion ''USD'' scenario1 = None"
  by (simp add: convertTx_def failingConversion_def scenario1_def)

theorem processedData_completes_or_throws_witness:
  "firstFailure failingConversion ''USD'' (foreignTx # scenario1) = Some ''no rate''
   \<and> processedData failingConversion ''USD'' (foreignTx # scenario1) = Inl ''no rate''
   \<and> firstFailure failingConversion ''USD'' scenario1 = None
   \<and> (\<exists>pd. processedData failingConversion ''USD'' scenario1 = Inr pd
          \<and> countAt pd ''2023-2-5'' = 1 \<and> amountAt pd ''2023-2-5'' = 100)"
proof -
  have f: "filter (\<lambda>t. txKey t = ''2023-2-5'') scenario1 = [hd scenario1]"
    by code_simp
  have c: "converted failingConversion ''USD'' (hd scenario1) = 100"
    by (simp add: converted_def convertTx_def failingConversion_def scenario1_def)
  show ?thesis
    using processedData_completes_or_throws [of failingConversion "''USD''" "foreignTx # scenario1"]
      processedData_completes_or_throws [of failingConversion "''USD''" scenario1]
    by (auto simp: firstFailure_foreign firstFailure_scenario1 f c
        simp del: firstFailure.simps)
qed

subsection \<open>C5: the shape of the grid, and the cells of days that do not exist\<close>

lemma lastDayOfMonth_table:
  "map (lastDayOfMonth cy) [0..<12] =
     [31, if isLeapYear (fullYear cy) then 29 else 28, 31, 30, 31, 30, 31, 31, 30, 31, 30, 31]"
proof -
  have l: "lastDayOfMonth cy m = nat (daysInMonth (fullYear cy) (int m))" if "m < 12" for m
    using lastDayOfMonth_eq [OF that, of cy] by simp
  have "[0..<12] = [0, 1, 2, 3, 4, 5, 6, 7, 8, 9, 10, 11::nat]"
    by (simp add: upt_rec)
  then show ?thesis
    by (simp add: l daysInMonth_def)
qed

lemma cell_leap_day_2024:
  "cell leapDayBuckets [2024] midJune2025 2024 29 1 =
     \<lparr>count = 1, amount = 20,
      date = \<lparr>getFullYear = 2024, getMonth = 1, getDate = 29\<rparr>,
      isCurrentMonth = True, isToday = False\<rparr>"
  by code_simp

text \<open>
  C5: for every bucket mapping, list of years, day and reference year, the grid has
  31 rows of 12 cells; the cell of day \<open>i + 1\<close> and month \<open>j\<close> is marked invalid
  (\<open>isCurrentMonth\<close> false) if and only if \<open>i + 1\<close> exceeds the number of days of
  month \<open>j\<close> in the reference year, which is 31, 28 or 29, 31, 30, 31, 30, 31, 31, 30,
  31, 30, 31 for January to December, with 29 in the leap years of the Gregorian
  calendar (a reference year from 0 to 99 stands for the year 1900 later, as
  \<open>new Date\<close> reads it); and an invalid cell has count 0 and amount 0.
\<close>

theorem grid_shape_and_validity:
  "length (grid (calendarData b ys today cy)) = 31
   \<and> list_all (\<lambda>row. length row = 12) (grid (calendarData b ys today cy))
   \<and> (\<forall>i < 31. \<forall>j < 12.
         (\<not> isCurrentMonth (grid (calendarData b ys today cy) ! i ! j))
            = ([31, if (let y = (if 0 \<le> cy \<and> cy \<le> 99 then 1900 + cy else cy)
                         in y mod 4 = 0 \<and> (y mod 100 \<noteq> 0 \<or> y mod 400 = 0)) then 29 else 28,
                31, 30, 31, 30, 31, 31, 30, 31, 30, 31] ! j < i + 1)
         \<and> (\<not> isCurrentMonth (grid (calendarData b ys today cy) ! i ! j) \<longrightarrow>
              count (grid (calendarData b ys today cy) ! i ! j) = 0
              \<and> amount (grid (calendarData b ys today cy) ! i ! j) = 0))"
proof (intro conjI allI impI)
  show "length (grid (calendarData b ys today cy)) = 31" by (rule grid_length)
  show "list_all (\<lambda>row. length row = 12) (grid (calendarData b ys today cy))"
    by (simp add: list_all_iff grid_row_length)
next
  fix i j :: nat assume i: "i < 31" and j: "j < 12"
  let ?days = "[31, if isLeapYear (fullYear cy) then 29 else 28,
                31, 30, 31, 30, 31, 31, 30, 31, 30, 31 :: nat]"
  have "lastDayOfMonth cy j = map (lastDayOfMonth cy) [0..<12] ! j"
    using j by simp
  also have "\<dots> = ?days ! j"
    by (simp only: lastDayOfMonth_table)
  finally have "lastDayOfMonth cy j = ?days ! j" .
  moreover have "(\<not> isCurrentMonth (grid (calendarData b ys today cy) ! i ! j))
      = (lastDayOfMonth cy j < i + 1)"
    using i j by (simp add: grid_nth cell_isCurrentMonth not_le)
  ultimately show "(\<not> isCurrentMonth (grid (calendarData b ys today cy) ! i ! j))
      = ([31, if (let y = (if 0 \<le> cy \<and> cy \<le> 99 then 1900 + cy else cy)
                   in y mod 4 = 0 \<and> (y mod 100 \<noteq> 0 \<or> y mod 400 = 0)) then 29 else 28,
          31, 30, 31, 30, 31, 31, 30, 31, 30, 31] ! j < i + 1)"
    by (simp add: isLeapYear_def fullYear_def Let_def)
next
  fix i j :: nat assume "i < 31" "j < 12"
    and "\<not> isCurrentMonth (grid (calendarData b ys today cy) ! i ! j)"
  then have "\<not> i + 1 \<le> lastDayOfMonth cy j"
    by (simp add: grid_nth cell_isCurrentMonth)
  with \<open>i < 31\<close> \<open>j < 12\<close> show "count (grid (calendarData b ys today cy) ! i ! j) = 0"
    and "amount (grid (calendarData b ys today cy) ! i ! j) = 0"
    by (simp_all add: grid_nth cell_count cell_amount)
qed

text \<open>
  For the bucket mapping of one transaction dated 2024-02-29: in the grid of 2025,
  January 1, January 31 and February 28 are valid, February 29, April 31 and
  February 31 are not, and the cell of February 29 is empty; in the grid of 2024,
  February 29 is valid and holds the transaction; in the grids of 1900 (written 0)
  and 2100, February 29 is not valid, and in the grid of 2000 it is.
\<close>

theorem grid_shape_and_validity_witness:
  "isCurrentMonth (grid (calendarData leapDayBuckets [2024] midJune2025 2025) ! 0 ! 0)
   \<and> isCurrentMonth (grid (calendarData leapDayBuckets [2024] midJune2025 2025) ! 30 ! 0)
   \<and> isCurrentMonth (grid (calendarData leapDayBuckets [2024] midJune2025 2025) ! 27 ! 1)
   \<and> \<not> isCurrentMonth (grid (calendarData leapDayBuckets [2024] midJune2025 2025) ! 28 ! 1)
   \<and> count (grid (calendarData leapDayBuckets [2024] midJune2025 2025) ! 28 ! 1) = 0
   \<and> amount (grid (calendarData leapDayBuckets [2024] midJune2025 2025) ! 28 ! 1) = 0
   \<and> \<not> isCurrentMonth (grid (calendarData leapDayBuckets [2024] midJune2025 2025) ! 30 ! 1)
   \<and> \<not> isCurrentMonth (grid (calendarData leapDayBuckets [2024] midJune2025 2025) ! 30 ! 3)
   \<and> isCurrentMonth (grid (calendarData leapDayBuckets [2024] midJune2025 2024) ! 28 ! 1)
   \<and> count (grid (calendarData leapDayBuckets [2024] midJune2025 2024) ! 28 ! 1) = 1
   \<and> amount (grid (calendarData leapDayBuckets [2024] midJune2025 2024) ! 28 ! 1) = 20
   \<and> \<not> isCurrentMonth (grid (calendarData leapDayBuckets [2024] midJune2025 0) ! 28 ! 1)
   \<and> \<not> isCurrentMonth (grid (calendarData leapDayBuckets [2024] midJune2025 2100) ! 28 ! 1)
   \<and> isCurrentMonth (grid (calendarData leapDayBuckets [2024] midJune2025 2000) ! 28 ! 1)
   \<and> length (grid (calendarData leapDayBuckets [2024] midJune2025 2025)) = 31
   \<and> list_all (\<lambda>row. length row = 12) (grid (calendarData leapDayBuckets [2024] midJune2025 2025))"
proof -
  have g: "grid (calendarData leapDayBuckets [2024] midJune2025 2024) ! 28 ! 1
      = cell leapDayBuckets [2024] midJune2025 2024 29 1"
    using grid_nth [of 28 1 leapDayBuckets "[2024]" midJune2025 2024] by simp
  have c: "count (grid (calendarData leapDayBuckets [2024] midJune2025 2024) ! 28 ! 1) = 1"
    "amount (grid (calendarData leapDayBuckets [2024] midJune2025 2024) ! 28 ! 1) = 20"
    unfolding g cell_leap_day_2024 by simp_all
  note t = grid_shape_and_validity [of leapDayBuckets "[2024]" midJune2025]
  note v = t [THEN conjunct2, THEN conjunct2, rule_format]
  have "isCurrentMonth (grid (calendarData leapDayBuckets [2024] midJune2025 2025) ! 0 ! 0)"
    using v [of 0 0 2025] by simp
  moreover have "isCurrentMonth (grid (calendarData leapDayBuckets [2024] midJune2025 2025) ! 30 ! 0)"
    using v [of 30 0 2025] by simp
  moreover have "isCurrentMonth (grid (calendarData leapDayBuckets [2024] midJune2025 2025) ! 27 ! 1)"
    using v [of 27 1 2025] by simp
  moreover have "\<not> isCurrentMonth (grid (calendarData leapDayBuckets [2024] midJune2025 2025) ! 28 ! 1)
      \<and> count (grid (calendarData leapDayBuckets [2024] midJune2025 2025) ! 28 ! 1) = 0
      \<and> amount (grid (calendarData leapDayBuckets [2024] midJune2025 2025) ! 28 ! 1) = 0"
    using v [of 28 1 2025] by simp
  moreover have "\<not> isCurrentMonth (grid (calendarData leapDayBuckets [2024] midJune2025 2025) ! 30 ! 1)"
    using v [of 30 1 2025] by simp
  moreover have "\<not> isCurrentMonth (grid (calendarData leapDayBuckets [2024] midJune2025 2025) ! 30 ! 3)"
    using v [of 30 3 2025] by simp
  moreover have "isCurrentMonth (grid (calendarData leapDayBuckets [2024] midJune2025 2024) ! 28 ! 1)"
    using v [of 28 1 2024] by simp
  moreover have "\<not> isCurrentMonth (grid (calendarData leapDayBuckets [2024] midJune2025 0) ! 28 ! 1)"
    using v [of 28 1 0] by simp
  moreover have "\<not> isCurrentMonth (grid (calendarData leapDayBuckets [2024] midJune2025 2100) ! 28 ! 1)"
    using v [of 28 1 2100] by simp
  moreover have "isCurrentMonth (grid (calendarData leapDayBuckets [2024] midJune2025 2000) ! 28 ! 1)"
    using v [of 28 1 2000] by simp
  moreover have "length (grid (calendarData leapDayBuckets [2024] midJune2025 2025)) = 31
    \<and> list_all (\<lambda>row. length row = 12) (grid (calendarData leapDayBuckets [2024] midJune2025 2025))"
    using t [of 2025] by blast
  ultimately show ?thesis using c by blast
qed

subsection \<open>The scale\<close>

lemma percentile80Index_eq: "percentile80Index xs = int (length xs * 4 div 5)"
proof -
  have "of_nat (length xs) * (4 / 5 :: rat) = of_nat (length xs * 4) / of_nat 5"
    by simp
  then show ?thesis
    unfolding percentile80Index_def by (simp only: floor_divide_of_nat_eq)
qed

lemma percentile_in_range: "0 < n \<Longrightarrow> n * 4 div 5 < (n::nat)"
  by simp

lemma scaleMaxAmount_eq:
  "scaleMaxAmount b =
     (let sorted = sort (filter (\<lambda>a. 0 < a) (map amount (map snd b)));
          n = length sorted
      in if n = 0 then 1 else max (sorted ! (n * 4 div 5)) 1)"
proof -
  define s where "s = sort (filter (\<lambda>a. 0 < a) (map amount (map snd b)))"
  have u: "scaleMaxAmount b =
     (if length s > 0
      then max (or_number (js_index s (percentile80Index s))
                 (or_number (js_index s (int (length s) - 1)) 1)) 1
      else 1)"
    unfolding scaleMaxAmount_def Let_def s_def ..
  have "scaleMaxAmount b = (if length s = 0 then 1 else max (s ! (length s * 4 div 5)) 1)"
  proof (cases "length s = 0")
    case True
    then show ?thesis by (simp add: u)
  next
    case False
    then have i: "length s * 4 div 5 < length s" using percentile_in_range by simp
    then have "s ! (length s * 4 div 5) \<in> set s" by (rule nth_mem)
    then have pos: "0 < s ! (length s * 4 div 5)" by (simp add: s_def)
    have "js_index s (percentile80Index s) = Some (s ! (length s * 4 div 5))"
      using i by (simp add: js_index_def percentile80Index_eq)
    then have "or_number (js_index s (percentile80Index s))
        (or_number (js_index s (int (length s) - 1)) 1) = s ! (length s * 4 div 5)"
      using pos by (simp add: or_number_def)
    then show ?thesis
      using False by (simp add: u)
  qed
  then show ?thesis
    unfolding Let_def s_def .
qed

lemma scaleMaxAmount_ge_1: "1 \<le> scaleMaxAmount b"
  by (simp add: scaleMaxAmount_eq Let_def)

lemma maxAmount_calendarData: "maxAmount (calendarData b ys today cy) = scaleMaxAmount b"
  by (simp add: calendarData_def)


subsection \<open>C3: the scale maximum\<close>

lemma cell_amount_scenario1:
  "amount (cell scenario1Buckets
      [2023, 2024] today 2025 d m) = (if d = 5 \<and> m = 2 then 150 else 0)"
proof -
  have a: "amountAt scenario1Buckets (dateKey y m' d') =
      (if y = 2023 \<and> m' = 2 \<and> d' = 5 then 100 else 0)
      + (if y = 2024 \<and> m' = 2 \<and> d' = 5 then 50 else 0)" for y m' d'
    unfolding processedData_Inr(3) [OF processedData_scenario1]
    by (auto simp: scenario1_def txKey_eq_iff converted_def convertTx_def identityConversion_def)
  have l: "lastDayOfMonth 2025 2 = 31" by code_simp
  show ?thesis
    by (auto simp: cell_amount a l)
qed

lemma positive_amounts_scenario1:
  "filter (\<lambda>a. 0 < a)
     (concat (map (\<lambda>d. map (\<lambda>m. if d = 5 \<and> m = 2 then 150 else (0::rat)) [0..<12]) [1..<32]))
   = [150]"
  by code_simp

lemma spec_maxAmountP80_scenario1:
  "spec_maxAmountP80 (grid (calendarData
      scenario1Buckets
      [2023, 2024] today 2025)) = 150"
proof -
  have m: "map amount (concat (grid (calendarData
      scenario1Buckets
      [2023, 2024] today 2025)))
    = concat (map (\<lambda>d. map (\<lambda>m. if d = 5 \<and> m = 2 then 150 else (0::rat)) [0..<12]) [1..<32])"
    by (simp add: calendarData_def map_concat comp_def cell_amount_scenario1
        del: upt.simps upt_Suc)
  show ?thesis
    unfolding spec_maxAmountP80_def m positive_amounts_scenario1 by simp
qed

lemma scaleMaxAmount_scenario1:
  "scaleMaxAmount scenario1Buckets
     = 100"
  by (simp add: scaleMaxAmount_eq Let_def scenario1Buckets_def)

text \<open>
  C3, as stated: \<open>maxAmountP80\<close> is read from the sorted positive cell amounts of the
  grid. It fails: the component reads it from the bucket amounts, one bucket per
  calendar date with its year, before the grid adds the years up. On the first
  scenario the only positive cell amount is 150, so the claim gives 150; the component
  sorts the bucket amounts 50 and 100 and reads 100.
\<close>

theorem scale_from_cells_counterexample:
  "map_sum id (\<lambda>c. (maxAmount c, spec_maxAmountP80 (grid c)))
     (chart identityConversion ''USD'' midJune2025 2025 scenario1) = Inr (100, 150)"
  by (simp add: chart_eq processedData_scenario1 displayYears_scenario1
      maxAmount_calendarData scaleMaxAmount_scenario1 spec_maxAmountP80_scenario1)

text \<open>
  C3, amended: for every bucket mapping the grid is built from, \<open>maxAmount\<close> equals
  \<open>max(sorted[floor(n * 0.8)], 1)\<close> where \<open>sorted\<close> is the ascending-sorted list of
  the \<open>n\<close> strictly positive bucket amounts (one bucket per calendar date, year
  included; the index is always below \<open>n\<close>), and \<open>maxAmount = 1\<close> when no bucket
  amount is strictly positive.
\<close>

theorem scale_from_buckets:
  "maxAmount (calendarData b ys today cy) =
     (let sorted = sort (filter (\<lambda>a. 0 < a) (map amount (map snd b)));
          n = length sorted
      in if n = 0 then 1 else max (sorted ! (n * 4 div 5)) 1)
   \<and> length (sort (filter (\<lambda>a. 0 < a) (map amount (map snd b)))) * 4 div 5
        < max 1 (length (sort (filter (\<lambda>a. 0 < a) (map amount (map snd b)))))"
proof
  show "maxAmount (calendarData b ys today cy) =
     (let sorted = sort (filter (\<lambda>a. 0 < a) (map amount (map snd b)));
          n = length sorted
      in if n = 0 then 1 else max (sorted ! (n * 4 div 5)) 1)"
    unfolding maxAmount_calendarData by (rule scaleMaxAmount_eq)
  show "length (sort (filter (\<lambda>a. 0 < a) (map amount (map snd b)))) * 4 div 5
        < max 1 (length (sort (filter (\<lambda>a. 0 < a) (map amount (map snd b)))))"
    by (simp del: length_sort)
qed

theorem scale_from_buckets_witness:
  "maxAmount (calendarData
      scenario1Buckets
      [2023, 2024] midJune2025 2025) = 100
   \<and> maxAmount (calendarData [] [] midJune2025 2025) = 1"
  using scale_from_buckets [of scenario1Buckets "[2023, 2024]" midJune2025 2025]
    scale_from_buckets [of "[]" "[]" midJune2025 2025]
  by (simp add: Let_def scenario1Buckets_def)

subsection \<open>C9: the first scenario\<close>

lemma countAt_scenario1:
  "countAt scenario1Buckets (dateKey y 2 5) = (if y = 2023 then 1 else 0) + (if y = 2024 then 1 else 0)"
  unfolding processedData_Inr(2) [OF processedData_scenario1]
  by (auto simp: scenario1_def txKey_eq_iff)

lemma amountAt_scenario1:
  "amountAt scenario1Buckets (dateKey y 2 5) = (if y = 2023 then 100 else 0) + (if y = 2024 then 50 else 0)"
  unfolding processedData_Inr(3) [OF processedData_scenario1]
  by (auto simp: scenario1_def txKey_eq_iff converted_def convertTx_def identityConversion_def)

lemma March_5_exists: "5 \<le> lastDayOfMonth cy 2"
proof -
  have "int (lastDayOfMonth cy 2) = 31"
    by (simp add: lastDayOfMonth_eq daysInMonth_def)
  then show ?thesis by linarith
qed

lemma cell_count_scenario1:
  "count (cell scenario1Buckets [2023, 2024] today cy 5 2) = 2"
  by (simp add: cell_count countAt_scenario1 March_5_exists)

lemma cell_amount_scenario1_any_year:
  "amount (cell scenario1Buckets [2023, 2024] today cy 5 2) = 150"
  by (simp add: cell_amount amountAt_scenario1 March_5_exists)

text \<open>
  C9, as stated: on the first scenario the bucket mapping holds count 2 and amount
  150 at (month 2, day 5). It fails: the bucket mapping is keyed by year, month and
  day, so it holds two buckets, one for each year, with count 1 each; no bucket
  holds count 2 and amount 150.
\<close>

theorem scenario1_buckets_counterexample:
  "map_sum id (map snd) (processedData identityConversion ''USD'' scenario1)
     = Inr [\<lparr>count = 1, amount = 100\<rparr>, \<lparr>count = 1, amount = 50\<rparr>]
   \<and> \<lparr>count = 2, amount = 150\<rparr> \<notin> set [\<lparr>count = 1, amount = 100\<rparr>, \<lparr>count = 1, amount = 50\<rparr>]"
  by (simp add: processedData_scenario1 scenario1Buckets_def)

text \<open>
  C9, amended: on the first scenario, with the identity conversion and target
  currency USD, the bucket mapping holds the bucket \<open>2023-2-5\<close> with count 1 and
  amount 100 and the bucket \<open>2024-2-5\<close> with count 1 and amount 50; over the years
  of the data, the buckets of month 2, day 5 add up to count 2 and amount 150; and,
  whatever the day and the reference year, the grid cell at day 5 of March (row 4,
  column 2, month name \<open>Mar\<close>) holds count 2 and amount 150.
\<close>

theorem scenario1_rollup:
  "processedData identityConversion ''USD'' scenario1 =
     Inr [(''2023-2-5'', \<lparr>count = 1, amount = 100\<rparr>), (''2024-2-5'', \<lparr>count = 1, amount = 50\<rparr>)]
   \<and> sum_list (map (\<lambda>y. countAt scenario1Buckets (dateKey y 2 5)) (displayYears scenario1)) = 2
   \<and> sum_list (map (\<lambda>y. amountAt scenario1Buckets (dateKey y 2 5)) (displayYears scenario1)) = 150
   \<and> (\<exists>c. chart identityConversion ''USD'' today cy scenario1 = Inr c
         \<and> count (grid c ! 4 ! 2) = 2 \<and> amount (grid c ! 4 ! 2) = 150
         \<and> monthNames c ! 2 = ''Mar'')"
proof (intro conjI)
  show "processedData identityConversion ''USD'' scenario1 =
     Inr [(''2023-2-5'', \<lparr>count = 1, amount = 100\<rparr>), (''2024-2-5'', \<lparr>count = 1, amount = 50\<rparr>)]"
    by (simp only: processedData_scenario1 scenario1Buckets_def)
  show "sum_list (map (\<lambda>y. countAt scenario1Buckets (dateKey y 2 5)) (displayYears scenario1)) = 2"
    by (simp add: displayYears_scenario1 countAt_scenario1)
  show "sum_list (map (\<lambda>y. amountAt scenario1Buckets (dateKey y 2 5)) (displayYears scenario1)) = 150"
    by (simp add: displayYears_scenario1 amountAt_scenario1)
  have g: "grid (calendarData scenario1Buckets [2023, 2024] today cy) ! 4 ! 2
      = cell scenario1Buckets [2023, 2024] today cy 5 2"
    using grid_nth [of 4 2 scenario1Buckets "[2023, 2024]" today cy] by simp
  have n: "monthNames (calendarData scenario1Buckets [2023, 2024] today cy) ! 2 = ''Mar''"
    by (simp add: calendarData_def)
  show "\<exists>c. chart identityConversion ''USD'' today cy scenario1 = Inr c
         \<and> count (grid c ! 4 ! 2) = 2 \<and> amount (grid c ! 4 ! 2) = 150
         \<and> monthNames c ! 2 = ''Mar''"
    by (simp add: chart_eq processedData_scenario1 displayYears_scenario1 g n
        cell_count_scenario1 cell_amount_scenario1_any_year)
qed

theorem scenario1_rollup_witness:
  "\<exists>c. chart identityConversion ''USD'' midJune2025 2025 scenario1 = Inr c
         \<and> count (grid c ! 4 ! 2) = 2 \<and> amount (grid c ! 4 ! 2) = 150
         \<and> monthNames c ! 2 = ''Mar''"
  using scenario1_rollup [of midJune2025 2025] by blast

subsection \<open>C4 and C10: intensity and opacity\<close>

lemma intensity_mono:
  assumes "0 < M" and "B \<le> A"
  shows "intensity M B \<le> intensity M A"
proof -
  from assms have "B / M \<le> A / M" by (simp add: divide_right_mono)
  then show ?thesis by (simp add: intensity_def min_le_iff_disj)
qed

lemma intensity_range:
  assumes "0 < M" and "0 < a"
  shows "0 < intensity M a \<and> intensity M a \<le> 1"
  using assms by (simp add: intensity_def)

text \<open>
  C4: with the \<open>maxAmount\<close> of a built calendar, for all amounts \<open>A > B > 0\<close> the
  intensity that \<open>getColorIntensity\<close> computes for \<open>A\<close> is at least the one it
  computes for \<open>B\<close>, both are \<open>min (amount / maxAmount) 1\<close> and lie in \<open>(0, 1]\<close>;
  and for amount 0 \<open>getColorIntensity\<close> returns \<open>transparent\<close>, not a colour of the
  scale.
\<close>

theorem intensity_monotone_bounded:
  assumes "0 < B" and "B < A"
  shows "intensity (maxAmount (calendarData b ys today cy)) B
           \<le> intensity (maxAmount (calendarData b ys today cy)) A
    \<and> intensity (maxAmount (calendarData b ys today cy)) A
         = min (A / maxAmount (calendarData b ys today cy)) 1
    \<and> intensity (maxAmount (calendarData b ys today cy)) B
         = min (B / maxAmount (calendarData b ys today cy)) 1
    \<and> 0 < intensity (maxAmount (calendarData b ys today cy)) A
    \<and> intensity (maxAmount (calendarData b ys today cy)) A \<le> 1
    \<and> 0 < intensity (maxAmount (calendarData b ys today cy)) B
    \<and> intensity (maxAmount (calendarData b ys today cy)) B \<le> 1
    \<and> getColorIntensity ty (calendarData b ys today cy) A
         = (if ty = Income
            then Rgba 34 197 94 (max (1 / 10) (intensity (maxAmount (calendarData b ys today cy)) A))
            else Rgba 239 68 68 (max (1 / 10) (intensity (maxAmount (calendarData b ys today cy)) A)))
    \<and> getColorIntensity ty (calendarData b ys today cy) B
         = (if ty = Income
            then Rgba 34 197 94 (max (1 / 10) (intensity (maxAmount (calendarData b ys today cy)) B))
            else Rgba 239 68 68 (max (1 / 10) (intensity (maxAmount (calendarData b ys today cy)) B)))
    \<and> getColorIntensity ty (calendarData b ys today cy) 0 = Transparent"
proof -
  have M: "0 < maxAmount (calendarData b ys today cy)"
    using scaleMaxAmount_ge_1 [of b] by (simp add: maxAmount_calendarData)
  from assms have A: "0 < A" by simp
  have c: "getColorIntensity ty cd a
      = (if ty = Income then Rgba 34 197 94 (max (1 / 10) (intensity (maxAmount cd) a))
         else Rgba 239 68 68 (max (1 / 10) (intensity (maxAmount cd) a)))" if "0 < a" for a cd
    using that by (simp add: getColorIntensity_def Let_def)
  have z: "getColorIntensity ty (calendarData b ys today cy) 0 = Transparent"
    by (simp add: getColorIntensity_def)
  have d: "intensity (maxAmount (calendarData b ys today cy)) a
      = min (a / maxAmount (calendarData b ys today cy)) 1" for a
    by (simp add: intensity_def)
  from assms have le: "B \<le> A" by simp
  from intensity_mono [OF M le] intensity_range [OF M A] intensity_range [OF M assms(1)]
    c [OF A, of "calendarData b ys today cy"] c [OF assms(1), of "calendarData b ys today cy"]
    z d [of A] d [of B]
  show ?thesis by blast
qed

theorem intensity_monotone_bounded_witness:
  "(0::rat) < 50 \<and> (50::rat) < 150
   \<and> intensity (maxAmount (calendarData scenario1Buckets [2023, 2024] midJune2025 2025)) 50 = 1 / 2
   \<and> intensity (maxAmount (calendarData scenario1Buckets [2023, 2024] midJune2025 2025)) 150 = 1
   \<and> getColorIntensity Expense (calendarData scenario1Buckets [2023, 2024] midJune2025 2025) 0
        = Transparent"
proof -
  have h: "(0::rat) < 50" "(50::rat) < 150" by simp_all
  from intensity_monotone_bounded [OF h, of scenario1Buckets "[2023, 2024]" midJune2025 2025 Expense]
  show ?thesis
    by (simp add: maxAmount_calendarData scaleMaxAmount_scenario1)
qed

text \<open>
  C10: for every cell amount \<open>a > 0\<close> the fill is an rgba colour (green for income,
  red for expense) whose opacity is \<open>max (1/10) (min (a / maxAmount) 1)\<close>; the
  opacity is at least \<open>1/10\<close>, and it is \<open>1/10\<close> for every amount up to a tenth of
  \<open>maxAmount\<close>, so below that the opacity is not proportional to the amount.
\<close>

theorem opacity_floor:
  assumes "0 < a"
  shows "getColorIntensity ty cd a =
           (if ty = Income
            then Rgba 34 197 94 (max (1 / 10) (min (a / maxAmount cd) 1))
            else Rgba 239 68 68 (max (1 / 10) (min (a / maxAmount cd) 1)))
    \<and> 1 / 10 \<le> max (1 / 10) (min (a / maxAmount cd) 1)
    \<and> (0 < maxAmount cd \<and> a \<le> maxAmount cd / 10 \<longrightarrow>
          max (1 / 10) (min (a / maxAmount cd) 1) = 1 / 10)"
proof (intro conjI impI)
  show "getColorIntensity ty cd a =
           (if ty = Income
            then Rgba 34 197 94 (max (1 / 10) (min (a / maxAmount cd) 1))
            else Rgba 239 68 68 (max (1 / 10) (min (a / maxAmount cd) 1)))"
    using assms by (simp add: getColorIntensity_def intensity_def Let_def)
  show "1 / 10 \<le> max (1 / 10) (min (a / maxAmount cd) 1)" by simp
next
  assume h: "0 < maxAmount cd \<and> a \<le> maxAmount cd / 10"
  then have le: "a / maxAmount cd \<le> 1 / 10"
    by (simp add: pos_divide_le_eq)
  then have le1: "a / maxAmount cd \<le> 1" by linarith
  show "max (1 / 10) (min (a / maxAmount cd) 1) = 1 / 10"
    by (simp only: min_absorb1 [OF le1] max_absorb1 [OF le])
qed

theorem opacity_floor_witness:
  "(0::rat) < 5
   \<and> getColorIntensity Income (calendarData scenario1Buckets [2023, 2024] midJune2025 2025) 5
        = Rgba 34 197 94 (1 / 10)
   \<and> getColorIntensity Expense (calendarData scenario1Buckets [2023, 2024] midJune2025 2025) 5
        = Rgba 239 68 68 (1 / 10)
   \<and> 5 / maxAmount (calendarData scenario1Buckets [2023, 2024] midJune2025 2025) = 1 / 20"
proof -
  have h: "(0::rat) < 5" by simp
  from opacity_floor [OF h, of Income "calendarData scenario1Buckets [2023, 2024] midJune2025 2025"]
    opacity_floor [OF h, of Expense "calendarData scenario1Buckets [2023, 2024] midJune2025 2025"]
  show ?thesis
    by (simp add: maxAmount_calendarData scaleMaxAmount_scenario1)
qed

subsection \<open>C7: the rows of the table\<close>

lemma nth_concat_uniform:
  "(\<And>xs. xs \<in> set xss \<Longrightarrow> length xs = n) \<Longrightarrow> i < length xss \<Longrightarrow> j < n \<Longrightarrow>
   concat xss ! (i * n + j) = xss ! i ! j"
proof (induction xss arbitrary: i)
  case Nil
  then show ?case by simp
next
  case (Cons xs xss)
  have l: "length xs = n" using Cons.prems(1) by simp
  show ?case
  proof (cases i)
    case 0
    then show ?thesis using Cons.prems(3) l by (simp add: nth_append)
  next
    case (Suc k)
    then have "concat (xs # xss) ! (i * n + j) = concat xss ! (k * n + j)"
      using l by (simp add: nth_append)
    also have "\<dots> = xss ! k ! j"
      using Cons.prems Suc by (intro Cons.IH) auto
    finally show ?thesis using Suc by simp
  qed
qed

lemma length_concat_uniform:
  "(\<And>xs. xs \<in> set xss \<Longrightarrow> length xs = n) \<Longrightarrow> length (concat xss) = length xss * n"
  by (induction xss) simp_all

lemma csv_data_rows:
  assumes "\<And>row. row \<in> set (grid cd) \<Longrightarrow> length row = 12"
  shows "length (csvDataForControls cd) = 1 + length (grid cd) * 12"
    and "i < length (grid cd) \<Longrightarrow> j < 12 \<Longrightarrow>
         csvDataForControls cd ! (1 + (i * 12 + j)) = csvRow (monthNames cd) i j (grid cd ! i ! j)"
proof -
  let ?rows = "map (\<lambda>(rowIndex, row).
                      map (\<lambda>(colIndex, cellData). csvRow (monthNames cd) rowIndex colIndex cellData)
                          (enumerate 0 row))
                   (enumerate 0 (grid cd))"
  have len: "length xs = 12" if "xs \<in> set ?rows" for xs
    using that assms by (auto simp: enumerate_eq_zip dest!: set_zip_rightD)
  show "length (csvDataForControls cd) = 1 + length (grid cd) * 12"
    using length_concat_uniform [of ?rows 12, OF len] by (simp add: csvDataForControls_def)
  assume i: "i < length (grid cd)" and j: "j < 12"
  then have r: "length (grid cd ! i) = 12" using assms by simp
  have "concat ?rows ! (i * 12 + j) = ?rows ! i ! j"
    using i j by (intro nth_concat_uniform len) simp_all
  also have "\<dots> = csvRow (monthNames cd) i j (grid cd ! i ! j)"
    using i j r by (simp add: nth_enumerate_eq)
  finally show "csvDataForControls cd ! (1 + (i * 12 + j))
      = csvRow (monthNames cd) i j (grid cd ! i ! j)"
    by (simp add: csvDataForControls_def)
qed

lemma activityLevel_ranges:
  "activityLevel n =
     (if n = 0 then ''None'' else if n = 1 then ''Single''
      else if 2 \<le> n \<and> n \<le> 3 then ''Low''
      else if 4 \<le> n \<and> n \<le> 6 then ''Moderate'' else ''High'')"
  by (auto simp: activityLevel_def)


lemma monthNames_calendarData:
  "monthNames (calendarData b ys today cy) =
     [''Jan'', ''Feb'', ''Mar'', ''Apr'', ''May'', ''Jun'',
      ''Jul'', ''Aug'', ''Sep'', ''Oct'', ''Nov'', ''Dec'']"
  by (simp add: calendarData_def)

lemma csvRow_month:
  assumes "length names = 12" and "list_all (\<lambda>name. name \<noteq> []) names" and "j < 12"
  shows "csvRow names i j c ! 1 = names ! j"
    and "csvRow names i j c ! 2 =
           (if isCurrentMonth c then names ! j @ '' '' @ toString_nat (i + 1) else ''Invalid'')"
proof -
  have "names ! j \<in> set names" using assms by (intro nth_mem) simp
  then have n: "names ! j \<noteq> []" using assms(2) by (auto simp: list_all_iff)
  show "csvRow names i j c ! 1 = names ! j"
    using n assms by (simp add: csvRow_def Let_def js_index_def or_string_def)
  show "csvRow names i j c ! 2 =
           (if isCurrentMonth c then names ! j @ '' '' @ toString_nat (i + 1) else ''Invalid'')"
    using n assms by (simp add: csvRow_def Let_def js_index_def template_string_def)
qed

lemma csvRow_columns:
  "length (csvRow names i j c) = 8"
  "csvRow names i j c ! 0 = toString_nat (i + 1)"
  "csvRow names i j c ! 3 = (if isCurrentMonth c then toString_nat (count c) else ''0'')"
  "csvRow names i j c ! 4 = (if isCurrentMonth c then toFixed2 (amount c) else ''0.00'')"
  "csvRow names i j c ! 5 =
     (if isCurrentMonth c
      then toFixed2 (if count c > 0 then roundToDouble (amount c / of_nat (count c)) else 0)
      else ''0.00'')"
  "csvRow names i j c ! 6 = (if isCurrentMonth c then activityLevel (count c) else ''N/A'')"
  "csvRow names i j c ! 7 = (if isCurrentMonth c then ''Yes'' else ''No'')"
  by (simp_all add: csvRow_def Let_def divide_double_def)

lemma csv_row_of_cell:
  assumes "i < 31" and "j < 12"
  shows "csvDataForControls (calendarData b ys today cy) ! (1 + (i * 12 + j))
     = csvRow (monthNames (calendarData b ys today cy)) i j (cell b ys today cy (i + 1) j)"
  using csv_data_rows(2) [of "calendarData b ys today cy" i j] assms
  by (simp add: grid_row_length grid_length grid_nth)

text \<open>
  C7, as stated: every data row of the table classifies its cell as None for count 0.
  It fails for the cells of days that do not exist: their count is 0, and their row
  says \<open>N/A\<close>. Here the row of February 30 (row 29, column 1 of the grid), for no
  transactions at all and reference year 2025.
\<close>

theorem csv_invalid_day_counterexample:
  "count (grid (calendarData [] [] midJune2025 2025) ! 29 ! 1) = 0
   \<and> csvDataForControls (calendarData [] [] midJune2025 2025) ! (1 + (29 * 12 + 1)) ! 6 = ''N/A''"
proof -
  have v: "\<not> isCurrentMonth (cell [] [] midJune2025 2025 (29 + 1) 1)"
    by (simp only: cell_isCurrentMonth lastDayOfMonth_Feb_2025)
  have b: "(29::nat) < 31" "(1::nat) < 12" by simp_all
  have "count (grid (calendarData [] [] midJune2025 2025) ! 29 ! 1) = 0"
    by (simp only: grid_nth [OF b] cell_count) simp
  moreover have "csvDataForControls (calendarData [] [] midJune2025 2025) ! (1 + (29 * 12 + 1)) ! 6
      = ''N/A''"
    by (simp only: csv_row_of_cell [OF b] csvRow_columns v if_False)
  ultimately show ?thesis by blast
qed

text \<open>
  C7, amended: for every grid with rows of 12 cells and 12 month names, none empty
  (as \<open>calendarData\<close> builds them), the table has a header row and then one data row
  of 8 columns per cell of the grid in day-major order: the row of day \<open>i + 1\<close> and
  month \<open>j\<close> is at index \<open>1 + (i * 12 + j)\<close>, and starts with the day and the month
  name. For a cell of a day that exists, the columns that follow are the month name
  and the day, the count, the amount printed with two decimals (\<open>toFixed(2)\<close>), the
  average, which is the double nearest to \<open>amount / count\<close> when \<open>count > 0\<close> and \<open>0\<close>
  otherwise, printed with two decimals, the activity, which is None for count 0,
  Single for count 1, Low for count 2 to 3, Moderate for count 4 to 6 and High for
  count 7 or more, and \<open>Yes\<close>. For a cell of a day that does not exist they are
  \<open>Invalid\<close>, \<open>0\<close>, \<open>0.00\<close>, \<open>0.00\<close>, \<open>N/A\<close> and \<open>No\<close>.
\<close>

theorem csv_rows:
  assumes "list_all (\<lambda>row. length row = 12) (grid cd)"
    and "length (monthNames cd) = 12"
    and "list_all (\<lambda>name. name \<noteq> []) (monthNames cd)"
    and "i < length (grid cd)" and "j < 12"
  shows "length (csvDataForControls cd) = 1 + length (grid cd) * 12
    \<and> length (csvDataForControls cd ! (1 + (i * 12 + j))) = 8
    \<and> csvDataForControls cd ! (1 + (i * 12 + j)) ! 0 = toString_nat (i + 1)
    \<and> csvDataForControls cd ! (1 + (i * 12 + j)) ! 1 = monthNames cd ! j
    \<and> (isCurrentMonth (grid cd ! i ! j) \<longrightarrow>
          csvDataForControls cd ! (1 + (i * 12 + j)) ! 2
            = monthNames cd ! j @ '' '' @ toString_nat (i + 1)
        \<and> csvDataForControls cd ! (1 + (i * 12 + j)) ! 3 = toString_nat (count (grid cd ! i ! j))
        \<and> csvDataForControls cd ! (1 + (i * 12 + j)) ! 4 = toFixed2 (amount (grid cd ! i ! j))
        \<and> csvDataForControls cd ! (1 + (i * 12 + j)) ! 5
            = toFixed2 (if count (grid cd ! i ! j) > 0
                        then roundToDouble
                               (amount (grid cd ! i ! j) / of_nat (count (grid cd ! i ! j)))
                        else 0)
        \<and> csvDataForControls cd ! (1 + (i * 12 + j)) ! 6
            = (let n = count (grid cd ! i ! j)
               in if n = 0 then ''None'' else if n = 1 then ''Single''
                  else if 2 \<le> n \<and> n \<le> 3 then ''Low''
                  else if 4 \<le> n \<and> n \<le> 6 then ''Moderate'' else ''High'')
        \<and> csvDataForControls cd ! (1 + (i * 12 + j)) ! 7 = ''Yes'')
    \<and> (\<not> isCurrentMonth (grid cd ! i ! j) \<longrightarrow>
          csvDataForControls cd ! (1 + (i * 12 + j)) ! 2 = ''Invalid''
        \<and> csvDataForControls cd ! (1 + (i * 12 + j)) ! 3 = ''0''
        \<and> csvDataForControls cd ! (1 + (i * 12 + j)) ! 4 = ''0.00''
        \<and> csvDataForControls cd ! (1 + (i * 12 + j)) ! 5 = ''0.00''
        \<and> csvDataForControls cd ! (1 + (i * 12 + j)) ! 6 = ''N/A''
        \<and> csvDataForControls cd ! (1 + (i * 12 + j)) ! 7 = ''No'')"
proof -
  have rows: "length row = 12" if "row \<in> set (grid cd)" for row
    using assms(1) that by (simp add: list_all_iff)
  have len: "length (csvDataForControls cd) = 1 + length (grid cd) * 12"
    by (rule csv_data_rows(1) [OF rows])
  have row: "csvDataForControls cd ! (1 + (i * 12 + j))
      = csvRow (monthNames cd) i j (grid cd ! i ! j)"
    by (rule csv_data_rows(2) [OF rows assms(4,5)])
  show ?thesis
    unfolding row csvRow_month [OF assms(2,3,5)] csvRow_columns activityLevel_ranges Let_def
    using len by simp
qed

lemma floor_numeral_divide: "\<lfloor>(numeral a :: rat) / numeral b\<rfloor> = numeral a div numeral b"
  using floor_divide_of_int_eq [of "numeral a" "numeral b", where ?'a = rat] by simp

lemma toFixed2_examples:
  "toFixed2 150 = ''150.00''" "toFixed2 75 = ''75.00''"
  by (simp_all add: toFixed2_def Let_def floor_numeral_divide toString_nat.simps digit_def)

lemma toString_nat_examples:
  "toString_nat 5 = ''5''" "toString_nat 2 = ''2''" "toString_nat 30 = ''30''"
  by code_simp+

lemma exponentUp_less: "x < 2 \<Longrightarrow> exponentUp x = 0"
  by (simp add: exponentUp.simps)

lemma exponentUp_ge: "2 \<le> x \<Longrightarrow> exponentUp x = Suc (exponentUp (x / 2))"
  by (subst exponentUp.simps) simp

lemma exponentUp_75: "exponentUp 75 = 6"
  by (simp add: exponentUp_less exponentUp_ge)

lemma roundToDouble_75: "roundToDouble 75 = 75"
  by (simp add: roundToDouble_def binade_def exponentUp_75 power_int_def power_divide roundHalfEven_def Let_def)

lemma csvRow_average_rounded:
  "csvRow names i j
     \<lparr>count = 6, amount = 3563473205156905 / 562949953421312, date = d,
      isCurrentMonth = True, isToday = False\<rparr> ! 5 = ''1.05''
   \<and> toFixed2 (3563473205156905 / 562949953421312 / 6) = ''1.06''"
proof -
  have q: "(3563473205156905 / 562949953421312 :: rat) / 6
      = 3563473205156905 / 3377699720527872"
    by simp
  have e: "exponentUp (3563473205156905 / 3377699720527872) = 0"
    by (simp add: exponentUp_less)
  have r: "roundToDouble (3563473205156905 / 3377699720527872)
      = 4751297606875873 / 4503599627370496"
    by (simp add: roundToDouble_def binade_def e power_int_def power_divide roundHalfEven_def
        Let_def floor_numeral_divide)
  have 1: "toFixed2 (4751297606875873 / 4503599627370496) = ''1.05''"
    by (simp add: toFixed2_def Let_def floor_numeral_divide toString_nat.simps digit_def)
  have 2: "toFixed2 (3563473205156905 / 3377699720527872) = ''1.06''"
    by (simp add: toFixed2_def Let_def floor_numeral_divide toString_nat.simps digit_def)
  have "csvRow names i j
     \<lparr>count = 6, amount = 3563473205156905 / 562949953421312, date = d,
      isCurrentMonth = True, isToday = False\<rparr> ! 5
     = toFixed2 (roundToDouble (3563473205156905 / 562949953421312 / 6))"
    by (simp add: csvRow_columns)
  also have "\<dots> = ''1.05''"
    by (simp only: q r 1)
  finally show ?thesis
    by (simp only: q 2 simp_thms)
qed

text \<open>
  The rows of March 5 and of February 30 in the first scenario: two transactions of
  100 and 50 on March 5 of two years, reference year 2025.
\<close>

theorem csv_rows_witness:
  "list_all (\<lambda>row. length row = 12)
     (grid (calendarData scenario1Buckets [2023, 2024] midJune2025 2025))
   \<and> length (monthNames (calendarData scenario1Buckets [2023, 2024] midJune2025 2025)) = 12
   \<and> list_all (\<lambda>name. name \<noteq> [])
       (monthNames (calendarData scenario1Buckets [2023, 2024] midJune2025 2025))
   \<and> length (grid (calendarData scenario1Buckets [2023, 2024] midJune2025 2025)) = 31
   \<and> length (csvDataForControls (calendarData scenario1Buckets [2023, 2024] midJune2025 2025)) = 373
   \<and> isCurrentMonth (grid (calendarData scenario1Buckets [2023, 2024] midJune2025 2025) ! 4 ! 2)
   \<and> csvDataForControls (calendarData scenario1Buckets [2023, 2024] midJune2025 2025) ! 51
       = [''5'', ''Mar'', ''Mar 5'', ''2'', ''150.00'', ''75.00'', ''Low'', ''Yes'']
   \<and> \<not> isCurrentMonth (grid (calendarData scenario1Buckets [2023, 2024] midJune2025 2025) ! 29 ! 1)
   \<and> csvDataForControls (calendarData scenario1Buckets [2023, 2024] midJune2025 2025) ! 350
       = [''30'', ''Feb'', ''Invalid'', ''0'', ''0.00'', ''0.00'', ''N/A'', ''No'']"
proof -
  let ?cd = "calendarData scenario1Buckets [2023, 2024] midJune2025 2025"
  have rows: "list_all (\<lambda>row. length row = 12) (grid ?cd)"
    by (simp add: list_all_iff grid_row_length)
  have names: "length (monthNames ?cd) = 12" "list_all (\<lambda>name. name \<noteq> []) (monthNames ?cd)"
    by (simp_all add: monthNames_calendarData)
  have len: "length (grid ?cd) = 31" by (rule grid_length)
  have b: "4 < length (grid ?cd)" "(2::nat) < 12" "29 < length (grid ?cd)" "(1::nat) < 12"
    by (simp_all add: len)
  have g: "grid ?cd ! 4 ! 2 = cell scenario1Buckets [2023, 2024] midJune2025 2025 5 2"
    using grid_nth [of 4 2 scenario1Buckets "[2023, 2024]" midJune2025 2025] by simp
  have g': "grid ?cd ! 29 ! 1 = cell scenario1Buckets [2023, 2024] midJune2025 2025 30 1"
    using grid_nth [of 29 1 scenario1Buckets "[2023, 2024]" midJune2025 2025] by simp
  have l: "int (lastDayOfMonth 2025 2) = 31"
    by (simp add: lastDayOfMonth_eq daysInMonth_def)
  have v: "isCurrentMonth (grid ?cd ! 4 ! 2)"
    unfolding g using l by (simp add: cell_isCurrentMonth)
  have v': "\<not> isCurrentMonth (grid ?cd ! 29 ! 1)"
    unfolding g' by (simp add: cell_isCurrentMonth lastDayOfMonth_Feb_2025 [unfolded One_nat_def])
  have c: "count (grid ?cd ! 4 ! 2) = 2" "amount (grid ?cd ! 4 ! 2) = 150"
    unfolding g by (simp_all add: cell_count_scenario1 cell_amount_scenario1_any_year)
  have n: "monthNames ?cd ! 2 = ''Mar''" "monthNames ?cd ! 1 = ''Feb''"
    by (simp_all add: monthNames_calendarData)
  have eight: "xs = [xs ! 0, xs ! 1, xs ! 2, xs ! 3, xs ! 4, xs ! 5, xs ! 6, xs ! 7]"
    if "length xs = 8" for xs :: "string list"
    using that by (intro nth_equalityI) (auto simp: nth_Cons' less_Suc_eq numeral_eq_Suc)
  have 1: "csvDataForControls ?cd ! 51
       = [''5'', ''Mar'', ''Mar 5'', ''2'', ''150.00'', ''75.00'', ''Low'', ''Yes'']"
    using csv_rows [OF rows names b(1,2)] v
    by (subst eight [of "csvDataForControls ?cd ! 51"])
      (simp_all add: c n roundToDouble_75 toFixed2_examples toString_nat_examples)
  have 2: "csvDataForControls ?cd ! 350
       = [''30'', ''Feb'', ''Invalid'', ''0'', ''0.00'', ''0.00'', ''N/A'', ''No'']"
    using csv_rows [OF rows names b(3,4)] v'
    by (subst eight [of "csvDataForControls ?cd ! 350"])
      (simp_all add: n n(2) [unfolded One_nat_def] toString_nat_examples)
  have 3: "length (csvDataForControls ?cd) = 373"
    using csv_rows [OF rows names b(1,2)] by (simp add: len)
  from rows names len 3 v 1 v' 2 show ?thesis by blast
qed

subsection \<open>C8: what the exports read\<close>

lemma cell_eq:
  "cell b ys today cy d m =
     \<lparr>count = (if d \<le> lastDayOfMonth cy m
               then sum_list (map (\<lambda>y. countAt b (dateKey y m d)) ys) else 0),
      amount = (if d \<le> lastDayOfMonth cy m
                then sum_list (map (\<lambda>y. amountAt b (dateKey y m d)) ys) else 0),
      date = newDate cy (int m) (int d),
      isCurrentMonth = (d \<le> lastDayOfMonth cy m),
      isToday = (d \<le> lastDayOfMonth cy m \<and> (\<exists>y\<in>set ys. newDate y (int m) (int d) = today))\<rparr>"
  by (simp add: cell_def Let_def fold_addYear)

lemma grid_cong:
  assumes "\<And>d m. sum_list (map (\<lambda>y. countAt b (dateKey y m d)) ys)
                 = sum_list (map (\<lambda>y. countAt b' (dateKey y m d)) ys)"
    and "\<And>d m. sum_list (map (\<lambda>y. amountAt b (dateKey y m d)) ys)
                 = sum_list (map (\<lambda>y. amountAt b' (dateKey y m d)) ys)"
  shows "grid (calendarData b ys today cy) = grid (calendarData b' ys today cy)"
  by (simp add: calendarData_def cell_eq assms)

lemma getColorIntensity_cong:
  "maxAmount cd = maxAmount cd' \<Longrightarrow> getColorIntensity ty cd a = getColorIntensity ty cd' a"
  by (simp add: getColorIntensity_def)

lemma svgCell_cong:
  "maxAmount cd = maxAmount cd' \<Longrightarrow> svgCell ty cd w r = svgCell ty cd' w r"
  by (intro ext) (simp add: svgCell_def Let_def getColorIntensity_cong [of cd cd'] split: prod.splits)

lemma svgRow_cong:
  "maxAmount cd = maxAmount cd' \<Longrightarrow> svgRow ty cd w = svgRow ty cd' w"
  by (intro ext) (simp add: svgRow_def svgCell_cong [of cd cd'] split: prod.splits)

lemma legendMinAmount_Min:
  "legendMinAmount b = (if positiveAmounts b = [] then 0 else Min (set (positiveAmounts b)))"
proof (cases "positiveAmounts b")
  case Nil
  then show ?thesis by (simp add: legendMinAmount_def)
next
  case (Cons a as)
  then show ?thesis
    using Min.set_eq_fold [of a as] by (simp add: legendMinAmount_def)
qed

lemma legendMinAmount_cong:
  assumes "sort (positiveAmounts b) = sort (positiveAmounts b')"
  shows "legendMinAmount b = legendMinAmount b'"
proof -
  have "set (sort (positiveAmounts b)) = set (sort (positiveAmounts b'))"
    and "length (sort (positiveAmounts b)) = length (sort (positiveAmounts b'))"
    using assms by simp_all
  then have "set (positiveAmounts b) = set (positiveAmounts b')"
    and "(positiveAmounts b = []) = (positiveAmounts b' = [])"
    by (simp_all del: length_0_conv add: length_0_conv [symmetric])
  then show ?thesis by (simp add: legendMinAmount_Min)
qed

lemma svgLegend_cong:
  assumes "sort (positiveAmounts b) = sort (positiveAmounts b')"
  shows "svgLegend ty cur w n b = svgLegend ty cur w n b'"
  by (simp add: svgLegend_def Let_def legendMaxScaleAmount_def assms legendMinAmount_cong [OF assms])

text \<open>
  C8, as stated: two runs of the exports on an identical grid and scale context
  (\<open>maxCount\<close>, \<open>maxAmount\<close>) give the same table and the same vector document. It
  fails for the document: its legend reads the smallest positive bucket amount from
  the bucket mapping, which the grid and the scale context do not determine. Here
  two transaction sets, first render each, with the same calendar (grid, scale
  context, month names) and the same table: the legend says \<open>Less [USD 20]\<close> for one
  and \<open>Less [USD 10]\<close> for the other.
\<close>

theorem export_legend_counterexample:
  "map_sum id calendarData_value
       (render identityConversion ''USD'' midJune2025 2025 legendDataA None)
     = map_sum id calendarData_value
         (render identityConversion ''USD'' midJune2025 2025 legendDataB None)
   \<and> map_sum id exportCSV (render identityConversion ''USD'' midJune2025 2025 legendDataA None)
     = map_sum id exportCSV (render identityConversion ''USD'' midJune2025 2025 legendDataB None)
   \<and> map_sum id (\<lambda>h. legendMinAmount (processedData_value h))
        (render identityConversion ''USD'' midJune2025 2025 legendDataA None) = Inr 20
   \<and> map_sum id (\<lambda>h. legendMinAmount (processedData_value h))
        (render identityConversion ''USD'' midJune2025 2025 legendDataB None) = Inr 10
   \<and> map_sum id (exportSVG (Some (1000, 600)) ''Expenses'' Expense ''USD'')
        (render identityConversion ''USD'' midJune2025 2025 legendDataA None)
     \<noteq> map_sum id (exportSVG (Some (1000, 600)) ''Expenses'' Expense ''USD'')
         (render identityConversion ''USD'' midJune2025 2025 legendDataB None)"
proof -
  have pA: "processedData identityConversion ''USD'' legendDataA = Inr legendBucketsA"
    by code_simp
  have pB: "processedData identityConversion ''USD'' legendDataB = Inr legendBucketsB"
    by code_simp
  have y: "displayYears legendDataA = [2023, 2024]" "displayYears legendDataB = [2023, 2024]"
    by code_simp+
  have cA: "countAt legendBucketsA (dateKey y m d) =
      (if y = 2023 \<and> m = 2 \<and> d = 5 then 1 else 0) + (if y = 2024 \<and> m = 2 \<and> d = 5 then 1 else 0)
      + (if y = 2023 \<and> m = 3 \<and> d = 1 then 1 else 0) + (if y = 2024 \<and> m = 3 \<and> d = 1 then 1 else 0)"
    for y m d
    unfolding processedData_Inr(2) [OF pA]
    by (auto simp: legendDataA_def txKey_eq_iff)
  have cB: "countAt legendBucketsB (dateKey y m d) =
      (if y = 2023 \<and> m = 2 \<and> d = 5 then 1 else 0) + (if y = 2024 \<and> m = 2 \<and> d = 5 then 1 else 0)
      + (if y = 2023 \<and> m = 3 \<and> d = 1 then 1 else 0) + (if y = 2024 \<and> m = 3 \<and> d = 1 then 1 else 0)"
    for y m d
    unfolding processedData_Inr(2) [OF pB]
    by (auto simp: legendDataB_def txKey_eq_iff)
  have aA: "amountAt legendBucketsA (dateKey y m d) =
      (if y = 2023 \<and> m = 2 \<and> d = 5 then 100 else 0) + (if y = 2024 \<and> m = 2 \<and> d = 5 then 50 else 0)
      + (if y = 2023 \<and> m = 3 \<and> d = 1 then 30 else 0) + (if y = 2024 \<and> m = 3 \<and> d = 1 then 20 else 0)"
    for y m d
    unfolding processedData_Inr(3) [OF pA]
    by (auto simp: legendDataA_def txKey_eq_iff converted_def convertTx_def identityConversion_def)
  have aB: "amountAt legendBucketsB (dateKey y m d) =
      (if y = 2023 \<and> m = 2 \<and> d = 5 then 100 else 0) + (if y = 2024 \<and> m = 2 \<and> d = 5 then 50 else 0)
      + (if y = 2023 \<and> m = 3 \<and> d = 1 then 40 else 0) + (if y = 2024 \<and> m = 3 \<and> d = 1 then 10 else 0)"
    for y m d
    unfolding processedData_Inr(3) [OF pB]
    by (auto simp: legendDataB_def txKey_eq_iff converted_def convertTx_def identityConversion_def)
  have g: "grid (calendarData legendBucketsA [2023, 2024] midJune2025 2025)
      = grid (calendarData legendBucketsB [2023, 2024] midJune2025 2025)"
    by (rule grid_cong) (simp_all add: cA cB aA aB)
  have mc: "foldr max (map count (map snd legendBucketsA)) 1
      = foldr max (map count (map snd legendBucketsB)) 1"
    by (simp add: legendBucketsA_def legendBucketsB_def)
  have ma: "scaleMaxAmount legendBucketsA = 100" "scaleMaxAmount legendBucketsB = 100"
    by (simp_all add: scaleMaxAmount_eq Let_def legendBucketsA_def legendBucketsB_def)
  have E: "calendarData legendBucketsA [2023, 2024] midJune2025 2025
      = calendarData legendBucketsB [2023, 2024] midJune2025 2025"
    using g mc by (simp add: calendarData_def ma)
  have minA: "legendMinAmount legendBucketsA = 20"
    by (simp add: legendMinAmount_def positiveAmounts_def legendBucketsA_def)
  have minB: "legendMinAmount legendBucketsB = 10"
    by (simp add: legendMinAmount_def positiveAmounts_def legendBucketsB_def)
  have L: "svgLegend ty cur w n legendBucketsA \<noteq> svgLegend ty cur w n legendBucketsB" for ty cur w n
    by (simp add: svgLegend_def Let_def minA minB)
  show ?thesis
    using L
    by (simp add: render_first pA pB y E minA minB exportCSV_def exportSVG_def
        downloadCalendarChartAsSVG_def Let_def)
qed

text \<open>
  C8, amended: the table is determined by the grid and the month names. The vector
  document is determined by the size of the chart element, the title, the chart
  type, the currency, the grid, the month names, the scale maximum \<open>maxAmount\<close> and
  the positive amounts of the bucket mapping, whatever their order (with
  \<open>toLocaleString\<close> of one locale): two runs that agree on these give the same
  table and the same document. Neither export reads \<open>maxCount\<close>.
\<close>

theorem export_determinism:
  "(grid cd = grid cd' \<and> monthNames cd = monthNames cd'
      \<longrightarrow> csvDataForControls cd = csvDataForControls cd')
   \<and> (grid cd = grid cd' \<and> monthNames cd = monthNames cd' \<and> maxAmount cd = maxAmount cd'
        \<and> sort (positiveAmounts b) = sort (positiveAmounts b')
      \<longrightarrow> downloadCalendarChartAsSVG rect chartTitle ty cur cd b
          = downloadCalendarChartAsSVG rect chartTitle ty cur cd' b')"
proof (intro conjI impI)
  assume "grid cd = grid cd' \<and> monthNames cd = monthNames cd'"
  then show "csvDataForControls cd = csvDataForControls cd'"
    by (simp add: csvDataForControls_def)
next
  assume a: "grid cd = grid cd' \<and> monthNames cd = monthNames cd' \<and> maxAmount cd = maxAmount cd'
        \<and> sort (positiveAmounts b) = sort (positiveAmounts b')"
  then have r: "svgRow ty cd w = svgRow ty cd' w" for w
    by (intro svgRow_cong) simp
  from a have l: "svgLegend ty cur w n b = svgLegend ty cur w n b'" for w n
    by (intro svgLegend_cong) simp
  from a show "downloadCalendarChartAsSVG rect chartTitle ty cur cd b
      = downloadCalendarChartAsSVG rect chartTitle ty cur cd' b'"
    by (simp add: downloadCalendarChartAsSVG_def Let_def r l split: option.splits prod.splits)
qed

text \<open>
  Two bucket mappings, in two orders, with four transactions on March 5: three in
  2023 and one in 2024, or two and two. The calendars differ in \<open>maxCount\<close> (3 and
  2) and agree on the grid and on \<open>maxAmount\<close>; the exports are the same.
\<close>

theorem export_determinism_witness:
  "grid (calendarData busyBucketsA [2023, 2024] midJune2025 2025)
     = grid (calendarData busyBucketsB [2023, 2024] midJune2025 2025)
   \<and> monthNames (calendarData busyBucketsA [2023, 2024] midJune2025 2025)
     = monthNames (calendarData busyBucketsB [2023, 2024] midJune2025 2025)
   \<and> maxAmount (calendarData busyBucketsA [2023, 2024] midJune2025 2025)
     = maxAmount (calendarData busyBucketsB [2023, 2024] midJune2025 2025)
   \<and> sort (positiveAmounts busyBucketsA) = sort (positiveAmounts busyBucketsB)
   \<and> maxCount (calendarData busyBucketsA [2023, 2024] midJune2025 2025) = 3
   \<and> maxCount (calendarData busyBucketsB [2023, 2024] midJune2025 2025) = 2
   \<and> csvDataForControls (calendarData busyBucketsA [2023, 2024] midJune2025 2025)
     = csvDataForControls (calendarData busyBucketsB [2023, 2024] midJune2025 2025)
   \<and> downloadCalendarChartAsSVG (Some (1000, 600)) ''Expenses'' Expense ''USD''
       (calendarData busyBucketsA [2023, 2024] midJune2025 2025) busyBucketsA
     = downloadCalendarChartAsSVG (Some (1000, 600)) ''Expenses'' Expense ''USD''
         (calendarData busyBucketsB [2023, 2024] midJune2025 2025) busyBucketsB"
proof -
  let ?cdA = "calendarData busyBucketsA [2023, 2024] midJune2025 2025"
  let ?cdB = "calendarData busyBucketsB [2023, 2024] midJune2025 2025"
  have k: "''2023-2-5'' = dateKey 2023 2 5" "''2024-2-5'' = dateKey 2024 2 5"
    by code_simp+
  have cA: "countAt busyBucketsA (dateKey y m d) =
      (if y = 2023 \<and> m = 2 \<and> d = 5 then 3 else if y = 2024 \<and> m = 2 \<and> d = 5 then 1 else 0)"
    for y m d
    by (simp add: countAt_def busyBucketsA_def k dateKey_eq_iff)
  have cB: "countAt busyBucketsB (dateKey y m d) =
      (if y = 2024 \<and> m = 2 \<and> d = 5 then 2 else if y = 2023 \<and> m = 2 \<and> d = 5 then 2 else 0)"
    for y m d
    by (simp add: countAt_def busyBucketsB_def k dateKey_eq_iff)
  have aA: "amountAt busyBucketsA (dateKey y m d) =
      (if y = 2023 \<and> m = 2 \<and> d = 5 then 100 else if y = 2024 \<and> m = 2 \<and> d = 5 then 50 else 0)"
    for y m d
    by (simp add: amountAt_def busyBucketsA_def k dateKey_eq_iff)
  have aB: "amountAt busyBucketsB (dateKey y m d) =
      (if y = 2024 \<and> m = 2 \<and> d = 5 then 50 else if y = 2023 \<and> m = 2 \<and> d = 5 then 100 else 0)"
    for y m d
    by (simp add: amountAt_def busyBucketsB_def k dateKey_eq_iff)
  have 1: "grid ?cdA = grid ?cdB"
    by (rule grid_cong) (simp_all add: cA cB aA aB)
  have 2: "monthNames ?cdA = monthNames ?cdB"
    by (simp add: monthNames_calendarData)
  have 3: "maxAmount ?cdA = maxAmount ?cdB"
    by (simp add: maxAmount_calendarData scaleMaxAmount_eq Let_def busyBucketsA_def busyBucketsB_def)
  have 4: "sort (positiveAmounts busyBucketsA) = sort (positiveAmounts busyBucketsB)"
    by (simp add: positiveAmounts_def busyBucketsA_def busyBucketsB_def)
  have 5: "maxCount ?cdA = 3" "maxCount ?cdB = 2"
    by (simp_all add: calendarData_def busyBucketsA_def busyBucketsB_def)
  from export_determinism [of ?cdA ?cdB busyBucketsA busyBucketsB
      "Some (1000, 600)" "''Expenses''" Expense "''USD''"] 1 2 3 4 5
  show ?thesis by blast
qed

text \<open>
  The document also depends on the size of the chart element on the screen: its
  width is \<open>max(2500, 1.5 * rect.width)\<close>.
\<close>

lemma exponentUp_1500: "exponentUp 1500 = 10" and exponentUp_3000: "exponentUp 3000 = 11"
  by (simp_all add: exponentUp_less exponentUp_ge)

lemma svgWidth_examples: "svgWidth 1000 = 2500" "svgWidth 2000 = 3000"
  by (simp_all add: svgWidth_def times_double_def roundToDouble_def binade_def
      exponentUp_1500 exponentUp_3000 power_int_def power_divide roundHalfEven_def Let_def)

lemma export_depends_on_element_size:
  "downloadCalendarChartAsSVG (Some (1000, 600)) chartTitle ty cur cd b
     \<noteq> downloadCalendarChartAsSVG (Some (2000, 600)) chartTitle ty cur cd b"
  by (simp add: downloadCalendarChartAsSVG_def Let_def svgWidth_examples)

subsection \<open>C6: the click on a cell\<close>

lemma handleCellClick_ignored:
  "\<not> isCurrentMonth c \<or> count c = 0 \<Longrightarrow> handleCellClick ty tz c m d = None"
  by (simp add: handleCellClick_def)

lemma handleCellClick_navigates:
  "isCurrentMonth c \<Longrightarrow> 0 < count c \<Longrightarrow>
   handleCellClick ty tz c m d =
     Some ((if ty = Income then ''/incomes'' else ''/expenses'')
           @ ''?startDate='' @ toISOString_date tz (setDate (date c) (int (getDate (date c)) - 1))
           @ ''&endDate='' @ toISOString_date tz (setDate (date c) (int (getDate (date c)) + 1)))"
  by (simp add: handleCellClick_def Let_def formatDateForURL_def or_string_def toISOString_date_def
      isoYear_def padStart_def)

lemma toUTC_west:
  assumes "- 1440 < tz d" and "tz d \<le> 0" and "validDate d"
  shows "toUTC tz d = d"
proof -
  from assms(1,2) have z: "(- tz d) div 1440 = 0" by simp
  from assms(3) have "1 \<le> int (getDate d)"
    and "int (getDate d) \<le> daysInMonth (getFullYear d) (int (getMonth d))"
    by (simp_all add: validDate_def)
  then show ?thesis
    by (simp add: toUTC_def z normDay_in_range)
qed

lemma toUTC_east:
  assumes "0 < tz d" and "tz d \<le> 1440"
  shows "toUTC tz d = setDate d (int (getDate d) - 1)"
proof -
  from assms have "(- 1440) div 1440 \<le> (- tz d) div (1440::int)"
    by (intro zdiv_mono1) simp_all
  moreover from assms have "(- tz d) div 1440 < 0"
    by (simp add: pos_imp_zdiv_neg_iff)
  ultimately have "(- tz d) div 1440 = - 1" by simp
  then show ?thesis by (simp add: toUTC_def setDate_def)
qed

lemma handleCellClick_UTC:
  "handleCellClick Expense (\<lambda>d. 0)
     \<lparr>count = 3, amount = 60, date = \<lparr>getFullYear = 2024, getMonth = 2, getDate = 5\<rparr>,
      isCurrentMonth = True, isToday = False\<rparr> 2 5
   = Some ''/expenses?startDate=2024-03-04&endDate=2024-03-06''"
  by code_simp

lemma handleCellClick_New_York:
  "handleCellClick Income (\<lambda>d. - 300)
     \<lparr>count = 3, amount = 60, date = \<lparr>getFullYear = 2024, getMonth = 2, getDate = 1\<rparr>,
      isCurrentMonth = True, isToday = False\<rparr> 2 1
   = Some ''/incomes?startDate=2024-02-29&endDate=2024-03-02''"
  by code_simp

text \<open>
  C6 at its own example, in a browser whose zone is east of UTC (here UTC+05:45,
  345 minutes): the click on the cell of 2024-03-05 with count 3, for the domain
  expense, navigates with \<open>startDate=2024-03-03\<close> and \<open>endDate=2024-03-05\<close>, not
  with 2024-03-04 and 2024-03-06: the dates are shifted by a day on the local
  calendar and then printed by \<open>toISOString\<close>, which is in UTC, where local
  midnight is still the day before.
\<close>

theorem handleCellClick_east_of_UTC:
  "handleCellClick Expense (\<lambda>d. 345)
     \<lparr>count = 3, amount = 60, date = \<lparr>getFullYear = 2024, getMonth = 2, getDate = 5\<rparr>,
      isCurrentMonth = True, isToday = False\<rparr> 2 5
   = Some ''/expenses?startDate=2024-03-03&endDate=2024-03-05''"
  by code_simp

theorem handleCellClick_east_of_UTC_witness:
  "handleCellClick Expense (\<lambda>d. 345)
     \<lparr>count = 3, amount = 60, date = \<lparr>getFullYear = 2024, getMonth = 2, getDate = 5\<rparr>,
      isCurrentMonth = True, isToday = False\<rparr> 2 5
   \<noteq> Some ''/expenses?startDate=2024-03-04&endDate=2024-03-06''"
  using handleCellClick_east_of_UTC by simp

end
